theory Spec2Isabelle
  imports Main
begin

section \<open>Data model of \<open>server.js\<close>\<close>

text \<open>
  The server keeps three in-memory arrays in \<open>MOCK_DB\<close>. Every record below has the
  fields of the object literal that the source builds; a field \<open>id\<close> or \<open>status\<close>
  carries the name of its record, since three objects have one. JavaScript numbers that hold
  the risk score and the warning counter only ever hold small non-negative integers (the score
  is clamped to 100, the counter grows by one per logged event, far below \<open>2^53\<close>), so
  they are natural numbers here. The two values that \<open>session.status\<close> takes are a
  datatype. Request fields are strings, the type at which the handlers compare them with
  \<open>===\<close>; \<open>timestamp\<close>, \<open>metadata\<close>, \<open>userId\<close> and \<open>examId\<close> are only copied and
  never inspected. \<open>Date.now()\<close> is an input of each handler: the clock reading is a
  parameter, and nothing is assumed about it, so two ids may coincide.
\<close>

record user =
  user_id :: string
  username :: string
  user_status :: string

datatype sessionStatus = ongoing | high_risk

record examSession =
  session_id :: string
  userId :: string
  examId :: string
  startTime :: nat
  riskScore :: nat
  warnings :: nat
  status :: sessionStatus

record logEntry =
  log_id :: string
  sessionId :: string
  eventType :: string
  timestamp :: string
  metadata :: string
  impact :: nat

record db =
  users :: "user list"
  examSessions :: "examSession list"
  logs :: "logEntry list"

definition MOCK_DB :: db where
  "MOCK_DB = \<lparr>users = [], examSessions = [], logs = []\<rparr>"

text \<open>
  What \<open>io.to(room).emit(event, payload)\<close> sends: the room, and the fields of the payload.
  \<open>Warning room type message currentWarnings riskScore\<close> is the \<open>'warning'\<close> event,
  \<open>HighRisk room message\<close> the \<open>'high_risk'\<close> event.
\<close>

datatype notification =
  Warning string string string nat nat
| HighRisk string string

datatype error = SessionNotFound

record report =
  report_session :: examSession
  events :: "logEntry list"
  totalWarnings :: nat
  finalRiskScore :: nat

section \<open>Helper functions of the source\<close>

text \<open>\<open>Number.prototype.toString\<close> on a non-negative integer: its decimal digits.\<close>

fun toString :: "nat \<Rightarrow> string" where
  "toString n =
     (if n < 10 then [''0123456789'' ! n]
      else toString (n div 10) @ [''0123456789'' ! (n mod 10)])"

declare toString.simps [simp del]

definition calculateRisk :: "string \<Rightarrow> nat" where
  "calculateRisk etype =
     (if etype = ''tab_switch'' then 15
      else if etype = ''no_face'' then 20
      else if etype = ''multiple_faces'' then 35
      else if etype = ''looking_away'' then 10
      else if etype = ''voice_detected'' then 25
      else if etype = ''fast_answering'' then 5
      else 0)"

definition getWarningMessage :: "string \<Rightarrow> string" where
  "getWarningMessage etype =
     (if etype = ''tab_switch'' then ''Warning: Please stay on the exam tab.''
      else if etype = ''no_face'' then ''Warning: No face detected in webcam.''
      else if etype = ''multiple_faces'' then ''Warning: Multiple faces detected!''
      else if etype = ''looking_away'' then ''Warning: Please stay focused on the screen.''
      else if etype = ''voice_detected'' then ''Warning: Voice detected in the background.''
      else ''Warning: Suspicious activity detected.'')"

text \<open>
  \<open>Array.prototype.find\<close> is \<^const>\<open>find\<close>: the first element that satisfies the
  predicate. The handler of an event mutates the object that \<open>find\<close> returned, which is
  that element of the array: \<open>update_first\<close> replaces the first match.
\<close>

fun update_first :: "('a \<Rightarrow> bool) \<Rightarrow> ('a \<Rightarrow> 'a) \<Rightarrow> 'a list \<Rightarrow> 'a list" where
  "update_first P f [] = []"
| "update_first P f (x # xs) = (if P x then f x # xs else x # update_first P f xs)"

section \<open>The four endpoints\<close>

text \<open>\<open>POST /api/auth/login\<close>: returns the user and the token, and the store.\<close>

definition login :: "nat \<Rightarrow> string \<Rightarrow> db \<Rightarrow> (user \<times> string) \<times> db" where
  "login now uname DB =
     (case find (\<lambda>u. username u = uname) (users DB) of
        Some u \<Rightarrow> ((u, ''fake-jwt-token-'' @ user_id u), DB)
      | None \<Rightarrow>
          let u = \<lparr>user_id = toString now, username = uname, user_status = ''active''\<rparr>
          in ((u, ''fake-jwt-token-'' @ user_id u), DB\<lparr>users := users DB @ [u]\<rparr>))"

text \<open>
  \<open>POST /api/exam/start\<close>: \<open>now\<close> is the reading of \<open>Date.now()\<close>, \<open>started\<close> the one
  of \<open>new Date()\<close>.
\<close>

definition start_exam :: "nat \<Rightarrow> nat \<Rightarrow> string \<Rightarrow> string \<Rightarrow> db \<Rightarrow> examSession \<times> db" where
  "start_exam now started uid eid DB =
     (let session = \<lparr>session_id = toString now, userId = uid, examId = eid,
                     startTime = started, riskScore = 0, warnings = 0, status = ongoing\<rparr>
      in (session, DB\<lparr>examSessions := examSessions DB @ [session]\<rparr>))"

text \<open>
  \<open>POST /api/exam/event\<close>: the response (404 is \<open>Inl SessionNotFound\<close>), the store, and
  the notifications emitted, in order.
\<close>

definition post_event ::
  "nat \<Rightarrow> string \<Rightarrow> string \<Rightarrow> string \<Rightarrow> string \<Rightarrow> db
     \<Rightarrow> (error + logEntry \<times> examSession) \<times> db \<times> notification list" where
  "post_event now sid etype ts md DB =
     (case find (\<lambda>s. session_id s = sid) (examSessions DB) of
        None \<Rightarrow> (Inl SessionNotFound, DB, [])
      | Some session \<Rightarrow>
          let eventRiskScore = calculateRisk etype;
              session1 = session\<lparr>riskScore := min 100 (riskScore session + eventRiskScore)\<rparr>;
              session2 = (if eventRiskScore > 0
                          then session1\<lparr>warnings := warnings session1 + 1\<rparr> else session1);
              emitted1 = (if eventRiskScore > 0
                          then [Warning sid etype (getWarningMessage etype)
                                  (warnings session2) (riskScore session2)]
                          else []);
              session3 = (if warnings session2 \<ge> 3
                          then session2\<lparr>status := high_risk\<rparr> else session2);
              emitted2 = (if warnings session2 \<ge> 3
                          then [HighRisk sid ''High risk marked: Too many warnings.'']
                          else []);
              entry = \<lparr>log_id = toString now, sessionId = sid, eventType = etype,
                       timestamp = ts, metadata = md, impact = eventRiskScore\<rparr>
          in (Inr (entry, session3),
              DB\<lparr>examSessions :=
                    update_first (\<lambda>s. session_id s = sid) (\<lambda>_. session3) (examSessions DB),
                  logs := logs DB @ [entry]\<rparr>,
              emitted1 @ emitted2))"

text \<open>\<open>GET /api/exam/report/:sessionId\<close>: the response and the store.\<close>

definition get_report :: "string \<Rightarrow> db \<Rightarrow> (error + report) \<times> db" where
  "get_report sid DB =
     (let session = find (\<lambda>s. session_id s = sid) (examSessions DB);
          sessionLogs = filter (\<lambda>l. sessionId l = sid) (logs DB)
      in case session of
           None \<Rightarrow> (Inl SessionNotFound, DB)
         | Some s \<Rightarrow>
             (Inr \<lparr>report_session = s, events = sessionLogs,
                   totalWarnings = warnings s, finalRiskScore = riskScore s\<rparr>, DB))"

section \<open>Sequences of requests\<close>

text \<open>
  A request to the server, with the clock readings its handler takes. \<open>step\<close> is the
  effect of one request on the store together with what it emits (the response goes to the
  caller and is left out); \<open>run\<close> handles a list of requests in order.
\<close>

datatype call =
  Login nat string
| Start nat nat string string
| Event nat string string string string
| Report string

fun step :: "call \<Rightarrow> db \<Rightarrow> db \<times> notification list" where
  "step (Login now uname) DB = (snd (login now uname DB), [])"
| "step (Start now started uid eid) DB = (snd (start_exam now started uid eid DB), [])"
| "step (Event now sid etype ts md) DB = snd (post_event now sid etype ts md DB)"
| "step (Report sid) DB = (snd (get_report sid DB), [])"

fun run :: "call list \<Rightarrow> db \<Rightarrow> db \<times> notification list" where
  "run [] DB = (DB, [])"
| "run (c # cs) DB =
     (let (DB1, out1) = step c DB; (DB2, out2) = run cs DB1 in (DB2, out1 @ out2))"

text \<open>The session that a request for \<open>sid\<close> reaches, and the log entries of \<open>sid\<close>.\<close>

definition find_session :: "db \<Rightarrow> string \<Rightarrow> examSession option" where
  "find_session DB sid = find (\<lambda>s. session_id s = sid) (examSessions DB)"

definition session_logs :: "db \<Rightarrow> string \<Rightarrow> logEntry list" where
  "session_logs DB sid = filter (\<lambda>l. sessionId l = sid) (logs DB)"

fun is_high_risk :: "notification \<Rightarrow> bool" where
  "is_high_risk (HighRisk _ _) = True"
| "is_high_risk (Warning _ _ _ _ _) = False"

fun is_warning :: "notification \<Rightarrow> bool" where
  "is_warning (Warning _ _ _ _ _) = True"
| "is_warning (HighRisk _ _) = False"

text \<open>
  Two properties of a store that every run from the empty store keeps. \<open>session_ok\<close>: the
  score is within the ceiling and the status is \<open>high_risk\<close> exactly when the counter has
  reached 3. \<open>log_consistent\<close>: the session that \<open>sid\<close> reaches agrees with the log
  entries of \<open>sid\<close>, and an id that reaches no session has no log entry.
\<close>

definition session_ok :: "examSession \<Rightarrow> bool" where
  "session_ok s = (riskScore s \<le> 100 \<and> (status s = high_risk \<longleftrightarrow> 3 \<le> warnings s))"

definition log_consistent :: "db \<Rightarrow> string \<Rightarrow> bool" where
  "log_consistent DB sid =
     (case find_session DB sid of
        None \<Rightarrow> session_logs DB sid = []
      | Some s \<Rightarrow>
          riskScore s = min 100 (sum_list (map impact (session_logs DB sid))) \<and>
          warnings s = length (filter (\<lambda>l. 0 < impact l) (session_logs DB sid)))"

text \<open>A store with one user, one session and two log entries, for the examples.\<close>

definition store_one :: db where
  "store_one =
     \<lparr>users = [\<lparr>user_id = ''900'', username = ''alice'', user_status = ''active''\<rparr>],
      examSessions = [\<lparr>session_id = ''1000'', userId = ''900'', examId = ''exam1'',
                       startTime = 1000, riskScore = 25, warnings = 2, status = ongoing\<rparr>],
      logs = [\<lparr>log_id = ''1001'', sessionId = ''1000'', eventType = ''tab_switch'',
               timestamp = ''t1'', metadata = ''m1'', impact = 15\<rparr>,
              \<lparr>log_id = ''1002'', sessionId = ''1000'', eventType = ''looking_away'',
               timestamp = ''t2'', metadata = ''m2'', impact = 10\<rparr>]\<rparr>"

text \<open>
  A row of events that all name the session \<open>sid\<close>, each with its clock reading, event
  type, timestamp and metadata; and the impact of each of them.
\<close>

definition events_on :: "string \<Rightarrow> (nat \<times> string \<times> string \<times> string) list \<Rightarrow> call list" where
  "events_on sid evs = map (\<lambda>(now, et, ts, md). Event now sid et ts md) evs"

definition impacts :: "(nat \<times> string \<times> string \<times> string) list \<Rightarrow> nat list" where
  "impacts evs = map (\<lambda>(now, et, ts, md). calculateRisk et) evs"

text \<open>
  More examples: the session that one start request at clock reading 1000 creates, the
  store that holds it alone, and the four events of the scenario in the specification.
\<close>

definition fresh_session :: examSession where
  "fresh_session = \<lparr>session_id = ''1000'', userId = ''900'', examId = ''exam1'',
                     startTime = 1000, riskScore = 0, warnings = 0, status = ongoing\<rparr>"

definition store_fresh :: db where
  "store_fresh = \<lparr>users = [], examSessions = [fresh_session], logs = []\<rparr>"

definition scenario_events :: "(nat \<times> string \<times> string \<times> string) list" where
  "scenario_events =
     [(1001, ''tab_switch'', ''t1'', ''m1''), (1002, ''looking_away'', ''t2'', ''m2''),
      (1003, ''multiple_faces'', ''t3'', ''m3''), (1004, ''fast_answering'', ''t4'', ''m4'')]"

section \<open>Lemmas about the model\<close>

subsection \<open>First match and its replacement\<close>

lemma find_append_single:
  "find P (xs @ [y]) = (case find P xs of Some x \<Rightarrow> Some x | None \<Rightarrow> if P y then Some y else None)"
  by (induction xs) auto

lemma find_None_not_in: "find P xs = None \<longleftrightarrow> (\<forall>x\<in>set xs. \<not> P x)"
  by (induction xs) auto

lemma find_Some_holds: "find P xs = Some x \<Longrightarrow> P x \<and> x \<in> set xs"
  by (induction xs) (auto split: if_splits)

lemma length_update_first: "length (update_first P f xs) = length xs"
  by (induction xs) auto

lemma find_update_first_same:
  "find P xs = Some x \<Longrightarrow> P (f x) \<Longrightarrow> find P (update_first P f xs) = Some (f x)"
  by (induction xs) (auto split: if_splits)

lemma find_update_first_other:
  "find P xs = Some x \<Longrightarrow> \<not> Q x \<Longrightarrow> \<not> Q (f x) \<Longrightarrow> find Q (update_first P f xs) = find Q xs"
  by (induction xs) (auto split: if_splits)

lemma set_update_first:
  "find P xs = Some x \<Longrightarrow> set (update_first P f xs) \<subseteq> insert (f x) (set xs)"
  by (induction xs) (auto split: if_splits)

lemma nth_update_first:
  "find P xs = Some x \<Longrightarrow> i < length xs \<Longrightarrow>
     update_first P f xs ! i = xs ! i \<or> (xs ! i = x \<and> update_first P f xs ! i = f x)"
proof (induction xs arbitrary: i)
  case Nil
  then show ?case by simp
next
  case (Cons a xs)
  show ?case
  proof (cases "P a")
    case True
    with Cons.prems show ?thesis by (cases i) auto
  next
    case False
    with Cons show ?thesis by (cases i) auto
  qed
qed

subsection \<open>One event on a known session\<close>

lemma post_event_unknown:
  "find_session DB sid = None \<Longrightarrow> post_event now sid et ts md DB = (Inl SessionNotFound, DB, [])"
  by (simp add: post_event_def find_session_def)

lemma post_event_known:
  assumes "find_session DB sid = Some s"
  shows "\<exists>s' entry.
     post_event now sid et ts md DB =
       (Inr (entry, s'),
        DB\<lparr>examSessions := update_first (\<lambda>x. session_id x = sid) (\<lambda>_. s') (examSessions DB),
           logs := logs DB @ [entry]\<rparr>,
        (if 0 < calculateRisk et
         then [Warning sid et (getWarningMessage et) (warnings s') (riskScore s')] else []) @
        (if 3 \<le> warnings s'
         then [HighRisk sid ''High risk marked: Too many warnings.''] else []))
     \<and> entry = \<lparr>log_id = toString now, sessionId = sid, eventType = et, timestamp = ts,
                 metadata = md, impact = calculateRisk et\<rparr>
     \<and> s' = s\<lparr>riskScore := min 100 (riskScore s + calculateRisk et),
               warnings := warnings s + (if 0 < calculateRisk et then 1 else 0),
               status := (if 3 \<le> warnings s + (if 0 < calculateRisk et then 1 else 0)
                          then high_risk else status s)\<rparr>"
  using assms by (simp add: post_event_def find_session_def Let_def)

subsection \<open>What one request changes\<close>

lemma login_frame:
  "examSessions (snd (login now uname DB)) = examSessions DB"
  "logs (snd (login now uname DB)) = logs DB"
  by (simp_all add: login_def Let_def split: option.splits)

lemma start_exam_frame:
  "users (snd (start_exam now started uid eid DB)) = users DB"
  "logs (snd (start_exam now started uid eid DB)) = logs DB"
  "examSessions (snd (start_exam now started uid eid DB)) =
     examSessions DB @ [\<lparr>session_id = toString now, userId = uid, examId = eid,
        startTime = started, riskScore = 0, warnings = 0, status = ongoing\<rparr>]"
  by (simp_all add: start_exam_def Let_def)

lemma get_report_frame: "snd (get_report sid DB) = DB"
  by (simp add: get_report_def Let_def split: option.splits)

lemma post_event_users: "users (fst (snd (post_event now sid et ts md DB))) = users DB"
  by (simp add: post_event_def Let_def split: option.splits)

lemma post_event_same_session:
  assumes "find_session DB sid = Some s"
  shows "find_session (fst (snd (post_event now sid et ts md DB))) sid =
     Some (s\<lparr>riskScore := min 100 (riskScore s + calculateRisk et),
             warnings := warnings s + (if 0 < calculateRisk et then 1 else 0),
             status := (if 3 \<le> warnings s + (if 0 < calculateRisk et then 1 else 0)
                        then high_risk else status s)\<rparr>)"
proof -
  from assms have sid: "session_id s = sid"
    using find_Some_holds [of "\<lambda>x. session_id x = sid" "examSessions DB" s]
    by (simp add: find_session_def)
  from post_event_known [OF assms, of now et ts md] obtain s' entry where
    pe: "fst (snd (post_event now sid et ts md DB)) =
         DB\<lparr>examSessions := update_first (\<lambda>x. session_id x = sid) (\<lambda>_. s') (examSessions DB),
            logs := logs DB @ [entry]\<rparr>"
    and s': "s' = s\<lparr>riskScore := min 100 (riskScore s + calculateRisk et),
               warnings := warnings s + (if 0 < calculateRisk et then 1 else 0),
               status := (if 3 \<le> warnings s + (if 0 < calculateRisk et then 1 else 0)
                          then high_risk else status s)\<rparr>"
    by auto
  have "session_id s' = sid" using s' sid by simp
  with assms have "find (\<lambda>x. session_id x = sid)
      (update_first (\<lambda>x. session_id x = sid) (\<lambda>_. s') (examSessions DB)) = Some s'"
    using find_update_first_same [of "\<lambda>x. session_id x = sid" "examSessions DB" s "\<lambda>_. s'"]
    by (simp add: find_session_def)
  then show ?thesis using pe s' by (simp add: find_session_def)
qed

lemma post_event_other_session:
  assumes "sid' \<noteq> sid"
  shows "find_session (fst (snd (post_event now sid et ts md DB))) sid' = find_session DB sid'"
proof (cases "find_session DB sid")
  case None
  then show ?thesis by (simp add: post_event_unknown)
next
  case (Some s)
  from Some have sid: "session_id s = sid"
    using find_Some_holds [of "\<lambda>x. session_id x = sid" "examSessions DB" s]
    by (simp add: find_session_def)
  from post_event_known [OF Some, of now et ts md] obtain s' entry where
    pe: "fst (snd (post_event now sid et ts md DB)) =
         DB\<lparr>examSessions := update_first (\<lambda>x. session_id x = sid) (\<lambda>_. s') (examSessions DB),
            logs := logs DB @ [entry]\<rparr>"
    and s': "s' = s\<lparr>riskScore := min 100 (riskScore s + calculateRisk et),
               warnings := warnings s + (if 0 < calculateRisk et then 1 else 0),
               status := (if 3 \<le> warnings s + (if 0 < calculateRisk et then 1 else 0)
                          then high_risk else status s)\<rparr>"
    by auto
  have "session_id s' = sid" using s' sid by simp
  with Some sid assms have "find (\<lambda>x. session_id x = sid')
      (update_first (\<lambda>x. session_id x = sid) (\<lambda>_. s') (examSessions DB)) =
      find (\<lambda>x. session_id x = sid') (examSessions DB)"
    using find_update_first_other [of "\<lambda>x. session_id x = sid" "examSessions DB" s
        "\<lambda>x. session_id x = sid'" "\<lambda>_. s'"]
    by (simp add: find_session_def)
  then show ?thesis using pe by (simp add: find_session_def)
qed

lemma post_event_logs:
  "session_logs (fst (snd (post_event now sid et ts md DB))) sid' =
     session_logs DB sid' @
       (if sid' = sid \<and> find_session DB sid \<noteq> None
        then [\<lparr>log_id = toString now, sessionId = sid, eventType = et, timestamp = ts,
                metadata = md, impact = calculateRisk et\<rparr>]
        else [])"
  by (simp add: post_event_def find_session_def session_logs_def Let_def split: option.splits)

lemma start_exam_find_session:
  "find_session (snd (start_exam now started uid eid DB)) sid =
     (case find_session DB sid of
        Some s \<Rightarrow> Some s
      | None \<Rightarrow> if toString now = sid
                then Some \<lparr>session_id = toString now, userId = uid, examId = eid,
                  startTime = started, riskScore = 0, warnings = 0, status = ongoing\<rparr>
                else None)"
  by (simp add: find_session_def start_exam_frame find_append_single)

subsection \<open>Invariants of every run\<close>

lemma run_invariant:
  assumes "P DB" and "\<And>c D. P D \<Longrightarrow> P (fst (step c D))"
  shows "P (fst (run cs DB))"
  using assms(1)
proof (induction cs arbitrary: DB)
  case Nil
  then show ?case by simp
next
  case (Cons c cs)
  from Cons.prems have "P (fst (step c DB))" by (rule assms(2))
  then have "P (fst (run cs (fst (step c DB))))" by (rule Cons.IH)
  then show ?case by (simp add: case_prod_beta)
qed

lemma min_clamp_add: "min (100::nat) (min 100 a + b) = min 100 (a + b)"
  by (simp add: min_def)

lemma login_view:
  "find_session (snd (login now uname DB)) sid = find_session DB sid"
  "session_logs (snd (login now uname DB)) sid = session_logs DB sid"
  by (simp_all add: find_session_def session_logs_def login_frame)

lemma start_exam_logs:
  "session_logs (snd (start_exam now started uid eid DB)) sid = session_logs DB sid"
  by (simp add: session_logs_def start_exam_frame)

lemma step_log_consistent:
  assumes "log_consistent D sid"
  shows "log_consistent (fst (step c D)) sid"
proof (cases c)
  case (Login now uname)
  then show ?thesis using assms by (simp add: log_consistent_def login_view split: option.splits)
next
  case (Start now started uid eid)
  then have fs: "find_session (fst (step c D)) sid =
      (case find_session D sid of
        Some s \<Rightarrow> Some s
      | None \<Rightarrow> if toString now = sid
                then Some \<lparr>session_id = toString now, userId = uid, examId = eid,
                  startTime = started, riskScore = 0, warnings = 0, status = ongoing\<rparr>
                else None)"
    and sl: "session_logs (fst (step c D)) sid = session_logs D sid"
    by (simp_all add: start_exam_find_session start_exam_logs)
  show ?thesis using assms unfolding log_consistent_def fs sl
    by (simp split: option.splits)
next
  case (Event now sid' et ts md)
  show ?thesis
  proof (cases "sid' = sid")
    case False
    then have "find_session (fst (step c D)) sid = find_session D sid"
      "session_logs (fst (step c D)) sid = session_logs D sid"
      using Event by (simp_all add: post_event_other_session post_event_logs)
    then show ?thesis using assms by (simp add: log_consistent_def split: option.splits)
  next
    case True
    show ?thesis
    proof (cases "find_session D sid")
      case None
      then show ?thesis using assms Event True by (simp add: post_event_unknown)
    next
      case (Some s)
      have fs: "find_session (fst (step c D)) sid =
          Some (s\<lparr>riskScore := min 100 (riskScore s + calculateRisk et),
             warnings := warnings s + (if 0 < calculateRisk et then 1 else 0),
             status := (if 3 \<le> warnings s + (if 0 < calculateRisk et then 1 else 0)
                        then high_risk else status s)\<rparr>)"
        using Event True post_event_same_session [OF Some, of now et ts md] by simp
      have sl: "session_logs (fst (step c D)) sid = session_logs D sid @
          [\<lparr>log_id = toString now, sessionId = sid, eventType = et, timestamp = ts,
            metadata = md, impact = calculateRisk et\<rparr>]"
        using Event True Some by (simp add: post_event_logs)
      from assms Some have
        "riskScore s = min 100 (sum_list (map impact (session_logs D sid)))"
        "warnings s = length (filter (\<lambda>l. 0 < impact l) (session_logs D sid))"
        by (simp_all add: log_consistent_def)
      then show ?thesis unfolding log_consistent_def fs sl by (simp add: min_clamp_add)
    qed
  qed
next
  case (Report sid')
  then show ?thesis using assms by (simp add: get_report_frame)
qed

lemma run_log_consistent: "log_consistent (fst (run cs MOCK_DB)) sid"
proof (rule run_invariant)
  show "log_consistent MOCK_DB sid"
    by (simp add: log_consistent_def MOCK_DB_def find_session_def session_logs_def)
qed (rule step_log_consistent)

lemma step_sessions_ok:
  assumes "\<forall>s\<in>set (examSessions D). session_ok s"
  shows "\<forall>s\<in>set (examSessions (fst (step c D))). session_ok s"
proof (cases c)
  case (Login now uname)
  then show ?thesis using assms by (simp add: login_frame)
next
  case (Start now started uid eid)
  then show ?thesis using assms by (auto simp add: start_exam_frame session_ok_def)
next
  case (Event now sid et ts md)
  show ?thesis
  proof (cases "find_session D sid")
    case None
    then show ?thesis using assms Event by (simp add: post_event_unknown)
  next
    case (Some s)
    then have in_set: "s \<in> set (examSessions D)"
      using find_Some_holds [of "\<lambda>x. session_id x = sid" "examSessions D" s]
      by (simp add: find_session_def)
    from post_event_known [OF Some, of now et ts md] obtain s' entry where
      pe: "fst (snd (post_event now sid et ts md D)) =
           D\<lparr>examSessions := update_first (\<lambda>x. session_id x = sid) (\<lambda>_. s') (examSessions D),
              logs := logs D @ [entry]\<rparr>"
      and s': "s' = s\<lparr>riskScore := min 100 (riskScore s + calculateRisk et),
               warnings := warnings s + (if 0 < calculateRisk et then 1 else 0),
               status := (if 3 \<le> warnings s + (if 0 < calculateRisk et then 1 else 0)
                          then high_risk else status s)\<rparr>"
      by auto
    from assms in_set have "session_ok s" by blast
    then have ok: "session_ok s'" using s' by (auto simp add: session_ok_def)
    have "set (examSessions (fst (step c D))) \<subseteq> insert s' (set (examSessions D))"
      using Event pe Some
        set_update_first [of "\<lambda>x. session_id x = sid" "examSessions D" s "\<lambda>_. s'"]
      by (simp add: find_session_def)
    then show ?thesis using assms ok by blast
  qed
next
  case (Report sid)
  then show ?thesis using assms by (simp add: get_report_frame)
qed

lemma run_sessions_ok: "\<forall>s\<in>set (examSessions (fst (run cs MOCK_DB))). session_ok s"
proof (rule run_invariant)
  show "\<forall>s\<in>set (examSessions MOCK_DB). session_ok s" by (simp add: MOCK_DB_def)
qed (rule step_sessions_ok)

lemma step_users_distinct:
  assumes "distinct (map username (users D))"
  shows "distinct (map username (users (fst (step c D))))"
proof (cases c)
  case (Login now uname)
  then show ?thesis using assms
    by (auto simp add: login_def Let_def find_None_not_in split: option.splits)
next
  case (Start now started uid eid)
  then show ?thesis using assms by (simp add: start_exam_frame)
next
  case (Event now sid et ts md)
  then show ?thesis using assms by (simp add: post_event_users)
next
  case (Report sid)
  then show ?thesis using assms by (simp add: get_report_frame)
qed

lemma step_positionwise:
  assumes "i < length (examSessions D)" and "riskScore (examSessions D ! i) \<le> 100"
  shows "i < length (examSessions (fst (step c D))) \<and>
         session_id (examSessions (fst (step c D)) ! i) = session_id (examSessions D ! i) \<and>
         riskScore (examSessions D ! i) \<le> riskScore (examSessions (fst (step c D)) ! i) \<and>
         warnings (examSessions D ! i) \<le> warnings (examSessions (fst (step c D)) ! i) \<and>
         (status (examSessions D ! i) = high_risk \<longrightarrow>
            status (examSessions (fst (step c D)) ! i) = high_risk)"
proof (cases c)
  case (Login now uname)
  then show ?thesis using assms by (simp add: login_frame)
next
  case (Start now started uid eid)
  then show ?thesis using assms by (simp add: start_exam_frame nth_append)
next
  case (Event now sid et ts md)
  show ?thesis
  proof (cases "find_session D sid")
    case None
    then show ?thesis using assms Event by (simp add: post_event_unknown)
  next
    case (Some s)
    from post_event_known [OF Some, of now et ts md] obtain s' entry where
      pe: "fst (snd (post_event now sid et ts md D)) =
           D\<lparr>examSessions := update_first (\<lambda>x. session_id x = sid) (\<lambda>_. s') (examSessions D),
              logs := logs D @ [entry]\<rparr>"
      and s': "s' = s\<lparr>riskScore := min 100 (riskScore s + calculateRisk et),
               warnings := warnings s + (if 0 < calculateRisk et then 1 else 0),
               status := (if 3 \<le> warnings s + (if 0 < calculateRisk et then 1 else 0)
                          then high_risk else status s)\<rparr>"
      by auto
    have sessions: "examSessions (fst (step c D)) =
        update_first (\<lambda>x. session_id x = sid) (\<lambda>_. s') (examSessions D)"
      using Event pe by simp
    from nth_update_first [of "\<lambda>x. session_id x = sid" "examSessions D" s i "\<lambda>_. s'"]
      Some assms(1)
    consider "examSessions (fst (step c D)) ! i = examSessions D ! i"
      | "examSessions D ! i = s" "examSessions (fst (step c D)) ! i = s'"
      by (auto simp add: find_session_def sessions)
    then show ?thesis
    proof cases
      case 1
      then show ?thesis using assms(1) sessions by (simp add: length_update_first)
    next
      case 2
      then show ?thesis using assms sessions s' by (simp add: length_update_first)
    qed
  qed
next
  case (Report sid)
  then show ?thesis using assms by (simp add: get_report_frame)
qed

lemma not_in_ids_find_session:
  "sid \<notin> session_id ` set (examSessions DB) \<longleftrightarrow> find_session DB sid = None"
  by (auto simp add: find_session_def find_None_not_in)

lemma in_ids_find_session:
  "sid \<in> session_id ` set (examSessions DB) \<Longrightarrow>
     \<exists>s. find_session DB sid = Some s \<and> session_id s = sid \<and> s \<in> set (examSessions DB)"
proof -
  assume "sid \<in> session_id ` set (examSessions DB)"
  then have "find_session DB sid \<noteq> None"
    using not_in_ids_find_session [of sid DB] by blast
  then obtain s where s: "find_session DB sid = Some s" by blast
  then have "session_id s = sid \<and> s \<in> set (examSessions DB)"
    using find_Some_holds [of "\<lambda>x. session_id x = sid" "examSessions DB" s]
    by (simp add: find_session_def)
  with s show ?thesis by blast
qed

subsection \<open>Events on one session, in a row\<close>

lemma run_Cons_fst: "fst (run (c # cs) DB) = fst (run cs (fst (step c DB)))"
  by (simp add: case_prod_beta)

lemma run_Cons_snd: "snd (run (c # cs) DB) = snd (step c DB) @ snd (run cs (fst (step c DB)))"
  by (simp add: case_prod_beta)

lemma post_event_emitted:
  assumes "find_session DB sid = Some s"
  shows "snd (snd (post_event now sid et ts md DB)) =
     (if 0 < calculateRisk et
      then [Warning sid et (getWarningMessage et) (warnings s + 1)
              (min 100 (riskScore s + calculateRisk et))]
      else []) @
     (if 3 \<le> warnings s + (if 0 < calculateRisk et then 1 else 0)
      then [HighRisk sid ''High risk marked: Too many warnings.''] else [])"
  using assms by (simp add: post_event_def find_session_def Let_def)

lemma impacts_Nil: "impacts [] = []"
  by (simp add: impacts_def)

lemma impacts_Cons: "impacts ((now, et, ts, md) # evs) = calculateRisk et # impacts evs"
  by (simp add: impacts_def)

lemma run_events_on:
  assumes "find_session DB sid = Some s"
  shows "\<exists>s'. find_session (fst (run (events_on sid evs) DB)) sid = Some s' \<and>
     riskScore s' =
       (if evs = [] then riskScore s else min 100 (riskScore s + sum_list (impacts evs))) \<and>
     warnings s' = warnings s + length (filter (\<lambda>i. 0 < i) (impacts evs)) \<and>
     length (filter is_warning (snd (run (events_on sid evs) DB))) =
       length (filter (\<lambda>i. 0 < i) (impacts evs)) \<and>
     (3 \<le> warnings s \<longrightarrow>
        length (filter is_high_risk (snd (run (events_on sid evs) DB))) = length evs)"
  using assms
proof (induction evs arbitrary: DB s)
  case Nil
  then show ?case by (simp add: events_on_def impacts_def)
next
  case (Cons ev evs)
  obtain now et ts md where ev: "ev = (now, et, ts, md)" by (cases ev) auto
  let ?c = "Event now sid et ts md"
  let ?D = "fst (step ?c DB)"
  let ?s1 = "s\<lparr>riskScore := min 100 (riskScore s + calculateRisk et),
             warnings := warnings s + (if 0 < calculateRisk et then 1 else 0),
             status := (if 3 \<le> warnings s + (if 0 < calculateRisk et then 1 else 0)
                        then high_risk else status s)\<rparr>"
  have split: "events_on sid (ev # evs) = ?c # events_on sid evs"
    "impacts (ev # evs) = calculateRisk et # impacts evs"
    by (simp_all add: events_on_def impacts_def ev)
  have found: "find_session ?D sid = Some ?s1"
    using post_event_same_session [OF Cons.prems, of now et ts md] by simp
  have out: "snd (step ?c DB) =
     (if 0 < calculateRisk et
      then [Warning sid et (getWarningMessage et) (warnings s + 1)
              (min 100 (riskScore s + calculateRisk et))]
      else []) @
     (if 3 \<le> warnings s + (if 0 < calculateRisk et then 1 else 0)
      then [HighRisk sid ''High risk marked: Too many warnings.''] else [])"
    using post_event_emitted [OF Cons.prems, of now et ts md] by simp
  from Cons.IH [OF found] obtain s' where
    s': "find_session (fst (run (events_on sid evs) ?D)) sid = Some s'"
    and risk: "riskScore s' =
       (if evs = [] then riskScore ?s1 else min 100 (riskScore ?s1 + sum_list (impacts evs)))"
    and warn: "warnings s' = warnings ?s1 + length (filter (\<lambda>i. 0 < i) (impacts evs))"
    and nwarn: "length (filter is_warning (snd (run (events_on sid evs) ?D))) =
       length (filter (\<lambda>i. 0 < i) (impacts evs))"
    and nhigh: "3 \<le> warnings ?s1 \<longrightarrow>
        length (filter is_high_risk (snd (run (events_on sid evs) ?D))) = length evs"
    by blast
  have outs: "snd (run (events_on sid (ev # evs)) DB) =
      snd (step ?c DB) @ snd (run (events_on sid evs) ?D)"
    by (simp only: split run_Cons_snd)
  have "find_session (fst (run (events_on sid (ev # evs)) DB)) sid = Some s'"
    using s' by (simp only: split run_Cons_fst)
  moreover have "riskScore s' = min 100 (riskScore s + sum_list (impacts (ev # evs)))"
    using risk by (cases "evs = []") (simp_all add: ev impacts_Cons impacts_Nil min_clamp_add add.assoc)
  moreover have "warnings s' =
      warnings s + length (filter (\<lambda>i. 0 < i) (impacts (ev # evs)))"
    using warn by (simp add: split)
  moreover have "length (filter is_warning (snd (run (events_on sid (ev # evs)) DB))) =
       length (filter (\<lambda>i. 0 < i) (impacts (ev # evs)))"
    using nwarn unfolding outs out by (simp add: split(2))
  moreover have "3 \<le> warnings s \<longrightarrow>
      length (filter is_high_risk (snd (run (events_on sid (ev # evs)) DB))) =
        length (ev # evs)"
    using nhigh unfolding outs out by simp
  ultimately show ?case by simp
qed

lemma run_events_on_below_threshold:
  assumes "find_session DB sid = Some s"
    and "warnings s + length (filter (\<lambda>i. 0 < i) (impacts evs)) < 3"
  shows "filter is_high_risk (snd (run (events_on sid evs) DB)) = []"
  using assms
proof (induction evs arbitrary: DB s)
  case Nil
  then show ?case by (simp add: events_on_def)
next
  case (Cons ev evs)
  obtain now et ts md where ev: "ev = (now, et, ts, md)" by (cases ev) auto
  let ?c = "Event now sid et ts md"
  let ?D = "fst (step ?c DB)"
  let ?s1 = "s\<lparr>riskScore := min 100 (riskScore s + calculateRisk et),
             warnings := warnings s + (if 0 < calculateRisk et then 1 else 0),
             status := (if 3 \<le> warnings s + (if 0 < calculateRisk et then 1 else 0)
                        then high_risk else status s)\<rparr>"
  have found: "find_session ?D sid = Some ?s1"
    using post_event_same_session [OF Cons.prems(1), of now et ts md] by simp
  have below: "warnings ?s1 + length (filter (\<lambda>i. 0 < i) (impacts evs)) < 3"
    using Cons.prems(2) by (auto simp add: ev impacts_Cons split: if_splits)
  then have now_below: "\<not> 3 \<le> warnings s + (if 0 < calculateRisk et then 1 else 0)"
    by simp
  have "filter is_high_risk (snd (step ?c DB)) = []"
    using post_event_emitted [OF Cons.prems(1), of now et ts md] now_below by simp
  moreover have "filter is_high_risk (snd (run (events_on sid evs) ?D)) = []"
    using found below by (rule Cons.IH)
  moreover have "snd (run (events_on sid (ev # evs)) DB) =
      snd (step ?c DB) @ snd (run (events_on sid evs) ?D)"
    by (simp only: ev events_on_def list.map prod.case run_Cons_snd)
  ultimately show ?case by simp
qed

subsection \<open>The example stores\<close>

lemma toString_1000: "toString 1000 = ''1000''"
  by (simp add: toString.simps)

lemma run_start_fresh: "fst (run [Start 1000 1000 ''900'' ''exam1''] MOCK_DB) = store_fresh"
  by (simp add: start_exam_def MOCK_DB_def store_fresh_def fresh_session_def toString_1000 Let_def)

lemma find_session_store_fresh: "find_session store_fresh ''1000'' = Some fresh_session"
  by (simp add: find_session_def store_fresh_def fresh_session_def)

lemma find_session_store_one:
  "find_session store_one ''1000'' =
     Some \<lparr>session_id = ''1000'', userId = ''900'', examId = ''exam1'',
           startTime = 1000, riskScore = 25, warnings = 2, status = ongoing\<rparr>"
  by (simp add: find_session_def store_one_def)

lemma step_start_fresh: "fst (step (Start 1000 1000 ''900'' ''exam1'') MOCK_DB) = store_fresh"
  using run_start_fresh by (simp only: run_Cons_fst run.simps(1) fst_conv)

lemma calculateRisk_multiple_faces: "calculateRisk ''multiple_faces'' = 35"
  by (simp add: calculateRisk_def)

lemma calculateRisk_other: "calculateRisk ''phone_detected'' = 0"
  by (simp add: calculateRisk_def)

lemma run_start_event:
  "find_session
     (fst (run [Start 1000 1000 ''900'' ''exam1'',
                Event 1001 ''1000'' ''multiple_faces'' ''t'' ''m''] MOCK_DB)) ''1000'' =
     Some (fresh_session\<lparr>riskScore := 35, warnings := 1\<rparr>)"
proof -
  have "fst (run [Start 1000 1000 ''900'' ''exam1'',
                Event 1001 ''1000'' ''multiple_faces'' ''t'' ''m''] MOCK_DB) =
        fst (step (Event 1001 ''1000'' ''multiple_faces'' ''t'' ''m'') store_fresh)"
    by (simp only: run_Cons_fst step_start_fresh run.simps(1) fst_conv)
  then show ?thesis
    using post_event_same_session [OF find_session_store_fresh,
        of 1001 "''multiple_faces''" "''t''" "''m''"]
    by (simp add: calculateRisk_multiple_faces fresh_session_def)
qed

lemma get_report_known:
  "find_session DB sid = Some s \<Longrightarrow>
     fst (get_report sid DB) =
       Inr \<lparr>report_session = s, events = session_logs DB sid,
             totalWarnings = warnings s, finalRiskScore = riskScore s\<rparr>"
  by (simp add: get_report_def find_session_def session_logs_def)

lemma calculateRisk_scenario:
  "calculateRisk ''tab_switch'' = 15" "calculateRisk ''looking_away'' = 10"
  "calculateRisk ''fast_answering'' = 5"
  by (simp_all add: calculateRisk_def)

lemma getWarningMessage_scenario:
  "getWarningMessage ''tab_switch'' = ''Warning: Please stay on the exam tab.''"
  "getWarningMessage ''looking_away'' = ''Warning: Please stay focused on the screen.''"
  "getWarningMessage ''multiple_faces'' = ''Warning: Multiple faces detected!''"
  "getWarningMessage ''fast_answering'' = ''Warning: Suspicious activity detected.''"
  by (simp_all add: getWarningMessage_def)

lemma four_events_run:
  assumes f0: "find_session DB sid = Some s"
    and fresh: "riskScore s = 0" "warnings s = 0" "status s = ongoing"
    and l0: "session_logs DB sid = []"
  shows
   "find_session (fst (run (events_on sid [(n1, ''tab_switch'', t1, m1)]) DB)) sid =
      Some (s\<lparr>riskScore := 15, warnings := 1\<rparr>)"
   "find_session (fst (run (events_on sid
        [(n1, ''tab_switch'', t1, m1), (n2, ''looking_away'', t2, m2)]) DB)) sid =
      Some (s\<lparr>riskScore := 25, warnings := 2\<rparr>)"
   "find_session (fst (run (events_on sid
        [(n1, ''tab_switch'', t1, m1), (n2, ''looking_away'', t2, m2),
         (n3, ''multiple_faces'', t3, m3)]) DB)) sid =
      Some (s\<lparr>riskScore := 60, warnings := 3, status := high_risk\<rparr>)"
   "find_session (fst (run (events_on sid
        [(n1, ''tab_switch'', t1, m1), (n2, ''looking_away'', t2, m2),
         (n3, ''multiple_faces'', t3, m3), (n4, ''fast_answering'', t4, m4)]) DB)) sid =
      Some (s\<lparr>riskScore := 65, warnings := 4, status := high_risk\<rparr>)"
   "snd (run (events_on sid
        [(n1, ''tab_switch'', t1, m1), (n2, ''looking_away'', t2, m2),
         (n3, ''multiple_faces'', t3, m3), (n4, ''fast_answering'', t4, m4)]) DB) =
      [Warning sid ''tab_switch'' ''Warning: Please stay on the exam tab.'' 1 15,
       Warning sid ''looking_away'' ''Warning: Please stay focused on the screen.'' 2 25,
       Warning sid ''multiple_faces'' ''Warning: Multiple faces detected!'' 3 60,
       HighRisk sid ''High risk marked: Too many warnings.'',
       Warning sid ''fast_answering'' ''Warning: Suspicious activity detected.'' 4 65,
       HighRisk sid ''High risk marked: Too many warnings.'']"
   "fst (get_report sid (fst (run (events_on sid
        [(n1, ''tab_switch'', t1, m1), (n2, ''looking_away'', t2, m2),
         (n3, ''multiple_faces'', t3, m3), (n4, ''fast_answering'', t4, m4)]) DB))) =
      Inr \<lparr>report_session = s\<lparr>riskScore := 65, warnings := 4, status := high_risk\<rparr>,
            events =
              [\<lparr>log_id = toString n1, sessionId = sid, eventType = ''tab_switch'',
                 timestamp = t1, metadata = m1, impact = 15\<rparr>,
               \<lparr>log_id = toString n2, sessionId = sid, eventType = ''looking_away'',
                 timestamp = t2, metadata = m2, impact = 10\<rparr>,
               \<lparr>log_id = toString n3, sessionId = sid, eventType = ''multiple_faces'',
                 timestamp = t3, metadata = m3, impact = 35\<rparr>,
               \<lparr>log_id = toString n4, sessionId = sid, eventType = ''fast_answering'',
                 timestamp = t4, metadata = m4, impact = 5\<rparr>],
            totalWarnings = 4, finalRiskScore = 65\<rparr>"
proof -
  let ?e1 = "Event n1 sid ''tab_switch'' t1 m1"
  let ?e2 = "Event n2 sid ''looking_away'' t2 m2"
  let ?e3 = "Event n3 sid ''multiple_faces'' t3 m3"
  let ?e4 = "Event n4 sid ''fast_answering'' t4 m4"
  define D1 where "D1 = fst (step ?e1 DB)"
  define D2 where "D2 = fst (step ?e2 D1)"
  define D3 where "D3 = fst (step ?e3 D2)"
  define D4 where "D4 = fst (step ?e4 D3)"
  have f1: "find_session D1 sid = Some (s\<lparr>riskScore := 15, warnings := 1\<rparr>)"
    using post_event_same_session [OF f0, of n1 "''tab_switch''" t1 m1] fresh
    by (simp add: D1_def calculateRisk_scenario)
  have f2: "find_session D2 sid = Some (s\<lparr>riskScore := 25, warnings := 2\<rparr>)"
    using post_event_same_session [OF f1, of n2 "''looking_away''" t2 m2] fresh
    by (simp add: D2_def calculateRisk_scenario)
  have f3: "find_session D3 sid = Some (s\<lparr>riskScore := 60, warnings := 3, status := high_risk\<rparr>)"
    using post_event_same_session [OF f2, of n3 "''multiple_faces''" t3 m3] fresh
    by (simp add: D3_def calculateRisk_multiple_faces)
  have f4: "find_session D4 sid = Some (s\<lparr>riskScore := 65, warnings := 4, status := high_risk\<rparr>)"
    using post_event_same_session [OF f3, of n4 "''fast_answering''" t4 m4] fresh
    by (simp add: D4_def calculateRisk_scenario)
  have o1: "snd (step ?e1 DB) =
      [Warning sid ''tab_switch'' ''Warning: Please stay on the exam tab.'' 1 15]"
    using post_event_emitted [OF f0, of n1 "''tab_switch''" t1 m1] fresh
    by (simp add: calculateRisk_scenario getWarningMessage_scenario)
  have o2: "snd (step ?e2 D1) =
      [Warning sid ''looking_away'' ''Warning: Please stay focused on the screen.'' 2 25]"
    using post_event_emitted [OF f1, of n2 "''looking_away''" t2 m2] fresh
    by (simp add: calculateRisk_scenario getWarningMessage_scenario)
  have o3: "snd (step ?e3 D2) =
      [Warning sid ''multiple_faces'' ''Warning: Multiple faces detected!'' 3 60,
       HighRisk sid ''High risk marked: Too many warnings.'']"
    using post_event_emitted [OF f2, of n3 "''multiple_faces''" t3 m3] fresh
    by (simp add: calculateRisk_multiple_faces getWarningMessage_scenario)
  have o4: "snd (step ?e4 D3) =
      [Warning sid ''fast_answering'' ''Warning: Suspicious activity detected.'' 4 65,
       HighRisk sid ''High risk marked: Too many warnings.'']"
    using post_event_emitted [OF f3, of n4 "''fast_answering''" t4 m4] fresh
    by (simp add: calculateRisk_scenario getWarningMessage_scenario)
  have l1: "session_logs D1 sid =
      [\<lparr>log_id = toString n1, sessionId = sid, eventType = ''tab_switch'',
         timestamp = t1, metadata = m1, impact = 15\<rparr>]"
    using f0 l0
    by (simp add: D1_def post_event_logs calculateRisk_scenario)
  have l2: "session_logs D2 sid = session_logs D1 sid @
      [\<lparr>log_id = toString n2, sessionId = sid, eventType = ''looking_away'',
         timestamp = t2, metadata = m2, impact = 10\<rparr>]"
    using f1 by (simp add: D2_def post_event_logs calculateRisk_scenario)
  have l3: "session_logs D3 sid = session_logs D2 sid @
      [\<lparr>log_id = toString n3, sessionId = sid, eventType = ''multiple_faces'',
         timestamp = t3, metadata = m3, impact = 35\<rparr>]"
    using f2 by (simp add: D3_def post_event_logs calculateRisk_multiple_faces)
  have l4: "session_logs D4 sid = session_logs D3 sid @
      [\<lparr>log_id = toString n4, sessionId = sid, eventType = ''fast_answering'',
         timestamp = t4, metadata = m4, impact = 5\<rparr>]"
    using f3 by (simp add: D4_def post_event_logs calculateRisk_scenario)
  have r1: "fst (run (events_on sid [(n1, ''tab_switch'', t1, m1)]) DB) = D1"
    by (simp add: events_on_def D1_def)
  have r2: "fst (run (events_on sid
        [(n1, ''tab_switch'', t1, m1), (n2, ''looking_away'', t2, m2)]) DB) = D2"
    by (simp add: events_on_def D1_def D2_def case_prod_beta)
  have r3: "fst (run (events_on sid
        [(n1, ''tab_switch'', t1, m1), (n2, ''looking_away'', t2, m2),
         (n3, ''multiple_faces'', t3, m3)]) DB) = D3"
    by (simp add: events_on_def D1_def D2_def D3_def case_prod_beta)
  have r4: "fst (run (events_on sid
        [(n1, ''tab_switch'', t1, m1), (n2, ''looking_away'', t2, m2),
         (n3, ''multiple_faces'', t3, m3), (n4, ''fast_answering'', t4, m4)]) DB) = D4"
    by (simp add: events_on_def D1_def D2_def D3_def D4_def case_prod_beta)
  have out: "snd (run (events_on sid
        [(n1, ''tab_switch'', t1, m1), (n2, ''looking_away'', t2, m2),
         (n3, ''multiple_faces'', t3, m3), (n4, ''fast_answering'', t4, m4)]) DB) =
      snd (step ?e1 DB) @ snd (step ?e2 D1) @ snd (step ?e3 D2) @ snd (step ?e4 D3)"
    by (simp add: events_on_def D1_def D2_def D3_def case_prod_beta)
  show "find_session (fst (run (events_on sid [(n1, ''tab_switch'', t1, m1)]) DB)) sid =
      Some (s\<lparr>riskScore := 15, warnings := 1\<rparr>)"
    by (simp only: r1 f1)
  show "find_session (fst (run (events_on sid
        [(n1, ''tab_switch'', t1, m1), (n2, ''looking_away'', t2, m2)]) DB)) sid =
      Some (s\<lparr>riskScore := 25, warnings := 2\<rparr>)"
    by (simp only: r2 f2)
  show "find_session (fst (run (events_on sid
        [(n1, ''tab_switch'', t1, m1), (n2, ''looking_away'', t2, m2),
         (n3, ''multiple_faces'', t3, m3)]) DB)) sid =
      Some (s\<lparr>riskScore := 60, warnings := 3, status := high_risk\<rparr>)"
    by (simp only: r3 f3)
  show "find_session (fst (run (events_on sid
        [(n1, ''tab_switch'', t1, m1), (n2, ''looking_away'', t2, m2),
         (n3, ''multiple_faces'', t3, m3), (n4, ''fast_answering'', t4, m4)]) DB)) sid =
      Some (s\<lparr>riskScore := 65, warnings := 4, status := high_risk\<rparr>)"
    by (simp only: r4 f4)
  show "snd (run (events_on sid
        [(n1, ''tab_switch'', t1, m1), (n2, ''looking_away'', t2, m2),
         (n3, ''multiple_faces'', t3, m3), (n4, ''fast_answering'', t4, m4)]) DB) =
      [Warning sid ''tab_switch'' ''Warning: Please stay on the exam tab.'' 1 15,
       Warning sid ''looking_away'' ''Warning: Please stay focused on the screen.'' 2 25,
       Warning sid ''multiple_faces'' ''Warning: Multiple faces detected!'' 3 60,
       HighRisk sid ''High risk marked: Too many warnings.'',
       Warning sid ''fast_answering'' ''Warning: Suspicious activity detected.'' 4 65,
       HighRisk sid ''High risk marked: Too many warnings.'']"
    by (simp only: out o1 o2 o3 o4 append.simps)
  show "fst (get_report sid (fst (run (events_on sid
        [(n1, ''tab_switch'', t1, m1), (n2, ''looking_away'', t2, m2),
         (n3, ''multiple_faces'', t3, m3), (n4, ''fast_answering'', t4, m4)]) DB))) =
      Inr \<lparr>report_session = s\<lparr>riskScore := 65, warnings := 4, status := high_risk\<rparr>,
            events =
              [\<lparr>log_id = toString n1, sessionId = sid, eventType = ''tab_switch'',
                 timestamp = t1, metadata = m1, impact = 15\<rparr>,
               \<lparr>log_id = toString n2, sessionId = sid, eventType = ''looking_away'',
                 timestamp = t2, metadata = m2, impact = 10\<rparr>,
               \<lparr>log_id = toString n3, sessionId = sid, eventType = ''multiple_faces'',
                 timestamp = t3, metadata = m3, impact = 35\<rparr>,
               \<lparr>log_id = toString n4, sessionId = sid, eventType = ''fast_answering'',
                 timestamp = t4, metadata = m4, impact = 5\<rparr>],
            totalWarnings = 4, finalRiskScore = 65\<rparr>"
    unfolding r4 get_report_known [OF f4] l4 l3 l2 l1 by simp
qed

lemma scenario_from_start:
  "fst (run (Start 1000 1000 ''900'' ''exam1'' # cs) MOCK_DB) = fst (run cs store_fresh)"
  "snd (run (Start 1000 1000 ''900'' ''exam1'' # cs) MOCK_DB) = snd (run cs store_fresh)"
proof -
  show "fst (run (Start 1000 1000 ''900'' ''exam1'' # cs) MOCK_DB) = fst (run cs store_fresh)"
    by (simp only: run_Cons_fst step_start_fresh)
  have "snd (step (Start 1000 1000 ''900'' ''exam1'') MOCK_DB) = []" by simp
  then show "snd (run (Start 1000 1000 ''900'' ''exam1'' # cs) MOCK_DB) =
      snd (run cs store_fresh)"
    by (simp only: run_Cons_snd step_start_fresh append.simps)
qed

lemma fresh_session_fields:
  "riskScore fresh_session = 0" "warnings fresh_session = 0" "status fresh_session = ongoing"
  by (simp_all add: fresh_session_def)

lemma session_logs_store_fresh: "session_logs store_fresh sid = []"
  by (simp add: session_logs_def store_fresh_def)

lemma store_one_flagged:
  "find_session (fst (snd (post_event 1003 ''1000'' ''multiple_faces'' ''t3'' ''m3'' store_one)))
     ''1000'' =
     Some \<lparr>session_id = ''1000'', userId = ''900'', examId = ''exam1'',
           startTime = 1000, riskScore = 60, warnings = 3, status = high_risk\<rparr>"
  using post_event_same_session [OF find_session_store_one,
      of 1003 "''multiple_faces''" "''t3''" "''m3''"]
  by (simp add: calculateRisk_multiple_faces)

subsection \<open>Status along a row of events\<close>

lemma run_events_on_status:
  assumes "find_session DB sid = Some s"
  shows "\<exists>s'. find_session (fst (run (events_on sid evs) DB)) sid = Some s' \<and>
     warnings s' = warnings s + length (filter (\<lambda>i. 0 < i) (impacts evs)) \<and>
     status s' = (if evs \<noteq> [] \<and> 3 \<le> warnings s' then high_risk else status s)"
  using assms
proof (induction evs arbitrary: DB s)
  case Nil
  then show ?case by (simp add: events_on_def impacts_def)
next
  case (Cons ev evs)
  obtain now et ts md where ev: "ev = (now, et, ts, md)" by (cases ev) auto
  let ?c = "Event now sid et ts md"
  let ?D = "fst (step ?c DB)"
  let ?s1 = "s\<lparr>riskScore := min 100 (riskScore s + calculateRisk et),
             warnings := warnings s + (if 0 < calculateRisk et then 1 else 0),
             status := (if 3 \<le> warnings s + (if 0 < calculateRisk et then 1 else 0)
                        then high_risk else status s)\<rparr>"
  have found: "find_session ?D sid = Some ?s1"
    using post_event_same_session [OF Cons.prems, of now et ts md] by simp
  from Cons.IH [OF found] obtain s' where
    s': "find_session (fst (run (events_on sid evs) ?D)) sid = Some s'"
    and warn: "warnings s' = warnings ?s1 + length (filter (\<lambda>i. 0 < i) (impacts evs))"
    and stat: "status s' = (if evs \<noteq> [] \<and> 3 \<le> warnings s' then high_risk else status ?s1)"
    by blast
  have run: "fst (run (events_on sid (ev # evs)) DB) = fst (run (events_on sid evs) ?D)"
    by (simp only: ev events_on_def list.map prod.case run_Cons_fst)
  have "find_session (fst (run (events_on sid (ev # evs)) DB)) sid = Some s'"
    using s' by (simp only: run)
  moreover have "warnings s' =
      warnings s + length (filter (\<lambda>i. 0 < i) (impacts (ev # evs)))"
    using warn by (simp add: ev impacts_Cons)
  moreover have "status s' = (if 3 \<le> warnings s' then high_risk else status s)"
  proof (cases "evs = []")
    case True
    with warn stat show ?thesis by (simp add: impacts_Nil)
  next
    case False
    with warn stat show ?thesis by auto
  qed
  ultimately show ?case by simp
qed

lemma step_event_length:
  "length (examSessions (fst (step (Event now sid et ts md) D))) = length (examSessions D)"
  by (simp add: post_event_def Let_def length_update_first split: option.splits)

lemma run_events_on_length:
  "length (examSessions (fst (run (events_on sid evs) D))) = length (examSessions D)"
proof (induction evs arbitrary: D)
  case Nil
  then show ?case by (simp add: events_on_def)
next
  case (Cons ev evs)
  obtain now et ts md where ev: "ev = (now, et, ts, md)" by (cases ev) auto
  have "fst (run (events_on sid (ev # evs)) D) =
      fst (run (events_on sid evs) (fst (step (Event now sid et ts md) D)))"
    by (simp only: ev events_on_def list.map prod.case run_Cons_fst)
  then show ?case using Cons.IH [of "fst (step (Event now sid et ts md) D)"]
    by (simp only: step_event_length)
qed

lemma single_session_found:
  "find_session D sid = Some s \<Longrightarrow> length (examSessions D) = 1 \<Longrightarrow> examSessions D = [s]"
  by (cases "examSessions D") (auto simp add: find_session_def split: if_splits)

lemma impacts_scenario: "impacts scenario_events = [15, 10, 35, 5]"
  by (simp add: impacts_def scenario_events_def calculateRisk_scenario
      calculateRisk_multiple_faces)

lemma scenario_store_sessions:
  "examSessions
     (fst (run (Start 1000 1000 ''900'' ''exam1'' # events_on ''1000'' scenario_events) MOCK_DB)) =
     [fresh_session\<lparr>riskScore := 65, warnings := 4, status := high_risk\<rparr>]"
proof (rule single_session_found)
  show "find_session
     (fst (run (Start 1000 1000 ''900'' ''exam1'' # events_on ''1000'' scenario_events) MOCK_DB))
     ''1000'' = Some (fresh_session\<lparr>riskScore := 65, warnings := 4, status := high_risk\<rparr>)"
    unfolding scenario_from_start unfolding scenario_events_def
    by (rule four_events_run [OF find_session_store_fresh fresh_session_fields
          session_logs_store_fresh])
  show "length (examSessions
     (fst (run (Start 1000 1000 ''900'' ''exam1'' # events_on ''1000'' scenario_events) MOCK_DB))) = 1"
    unfolding scenario_from_start by (simp add: run_events_on_length store_fresh_def)
qed

lemma scenario_store_next_sessions:
  "examSessions
     (fst (step (Event 1005 ''1000'' ''phone_detected'' ''t5'' ''m5'')
        (fst (run (Start 1000 1000 ''900'' ''exam1'' # events_on ''1000'' scenario_events)
           MOCK_DB)))) =
     [fresh_session\<lparr>riskScore := 65, warnings := 4, status := high_risk\<rparr>]"
proof (rule single_session_found)
  let ?D = "fst (run (Start 1000 1000 ''900'' ''exam1'' # events_on ''1000'' scenario_events)
           MOCK_DB)"
  have f: "find_session ?D ''1000'' =
      Some (fresh_session\<lparr>riskScore := 65, warnings := 4, status := high_risk\<rparr>)"
    unfolding find_session_def scenario_store_sessions by (simp add: fresh_session_def)
  show "find_session (fst (step (Event 1005 ''1000'' ''phone_detected'' ''t5'' ''m5'') ?D))
      ''1000'' = Some (fresh_session\<lparr>riskScore := 65, warnings := 4, status := high_risk\<rparr>)"
    using post_event_same_session [OF f, of 1005 "''phone_detected''" "''t5''" "''m5''"]
    by (simp add: calculateRisk_other fresh_session_def)
  show "length (examSessions
      (fst (step (Event 1005 ''1000'' ''phone_detected'' ''t5'' ''m5'') ?D))) = 1"
    by (simp only: step_event_length scenario_store_sessions) simp
qed

section \<open>The claims\<close>

text \<open>
  Claim C1, as the code has it. The handler tests \<open>session.warnings >= 3\<close> on every
  event and never reads the status, so a \<open>high_risk\<close> notification is emitted on an
  event exactly when the session's warnings counter after that event is at least 3: none
  before the counter reaches 3, one on the event at which it reaches 3, and one more on every
  later event on that session, whether that event has an impact or not.
\<close>

theorem high_risk_emitted_whenever_threshold_met:
  "(find_session DB sid = Some s \<longrightarrow>
      (\<exists>s'. find_session (fst (snd (post_event now sid et ts md DB))) sid = Some s' \<and>
            filter is_high_risk (snd (snd (post_event now sid et ts md DB))) =
              (if 3 \<le> warnings s'
               then [HighRisk sid ''High risk marked: Too many warnings.''] else []))) \<and>
   (find_session DB sid = Some s \<and>
    warnings s + length (filter (\<lambda>i. 0 < i) (impacts evs)) < 3 \<longrightarrow>
      filter is_high_risk (snd (run (events_on sid evs) DB)) = []) \<and>
   (find_session DB sid = Some s \<and> 3 \<le> warnings s \<longrightarrow>
      length (filter is_high_risk (snd (run (events_on sid evs) DB))) = length evs)"
proof (intro conjI impI)
  assume a: "find_session DB sid = Some s"
  from post_event_same_session [OF a, of now et ts md] post_event_emitted [OF a, of now et ts md]
  show "\<exists>s'. find_session (fst (snd (post_event now sid et ts md DB))) sid = Some s' \<and>
            filter is_high_risk (snd (snd (post_event now sid et ts md DB))) =
              (if 3 \<le> warnings s'
               then [HighRisk sid ''High risk marked: Too many warnings.''] else [])"
    by simp
next
  assume a: "find_session DB sid = Some s \<and>
    warnings s + length (filter (\<lambda>i. 0 < i) (impacts evs)) < 3"
  then show "filter is_high_risk (snd (run (events_on sid evs) DB)) = []"
    using run_events_on_below_threshold [of DB sid s evs] by blast
next
  assume a: "find_session DB sid = Some s \<and> 3 \<le> warnings s"
  then have "find_session DB sid = Some s" by simp
  from run_events_on [OF this, of evs] a
  show "length (filter is_high_risk (snd (run (events_on sid evs) DB))) = length evs"
    by blast
qed

theorem high_risk_emitted_whenever_threshold_met_witness:
  "find_session store_one ''1000'' =
     Some \<lparr>session_id = ''1000'', userId = ''900'', examId = ''exam1'',
           startTime = 1000, riskScore = 25, warnings = 2, status = ongoing\<rparr> \<and>
   filter is_high_risk
     (snd (snd (post_event 1003 ''1000'' ''multiple_faces'' ''t3'' ''m3'' store_one))) =
     [HighRisk ''1000'' ''High risk marked: Too many warnings.''] \<and>
   filter is_high_risk
     (snd (run (events_on ''1000''
        [(1004, ''phone_detected'', ''t4'', ''m4''), (1005, ''phone_detected'', ''t5'', ''m5'')])
        store_one)) = [] \<and>
   length (filter is_high_risk
     (snd (run (events_on ''1000''
        [(1004, ''phone_detected'', ''t4'', ''m4''), (1005, ''phone_detected'', ''t5'', ''m5'')])
        (fst (snd (post_event 1003 ''1000'' ''multiple_faces'' ''t3'' ''m3'' store_one)))))) = 2"
proof -
  let ?s = "\<lparr>session_id = ''1000'', userId = ''900'', examId = ''exam1'',
           startTime = 1000, riskScore = 25, warnings = 2, status = ongoing\<rparr>"
  let ?s' = "\<lparr>session_id = ''1000'', userId = ''900'', examId = ''exam1'',
           startTime = 1000, riskScore = 60, warnings = 3, status = high_risk\<rparr>"
  let ?D = "fst (snd (post_event 1003 ''1000'' ''multiple_faces'' ''t3'' ''m3'' store_one))"
  let ?evs = "[(1004::nat, ''phone_detected'', ''t4'', ''m4''),
               (1005, ''phone_detected'', ''t5'', ''m5'')]"
  have h: "find_session store_one ''1000'' = Some ?s" by (rule find_session_store_one)
  have h': "find_session ?D ''1000'' = Some ?s'" by (rule store_one_flagged)
  have i: "impacts ?evs = [0, 0]" by (simp add: impacts_def calculateRisk_other)
  note one = high_risk_emitted_whenever_threshold_met
    [of store_one "''1000''" ?s 1003 "''multiple_faces''" "''t3''" "''m3''" ?evs]
  from one h h'
  have "filter is_high_risk
     (snd (snd (post_event 1003 ''1000'' ''multiple_faces'' ''t3'' ''m3'' store_one))) =
     [HighRisk ''1000'' ''High risk marked: Too many warnings.'']"
    by auto
  moreover from one h
  have "filter is_high_risk (snd (run (events_on ''1000'' ?evs) store_one)) = []"
    by (simp add: i)
  moreover from high_risk_emitted_whenever_threshold_met
    [of ?D "''1000''" ?s' 1006 "''tab_switch''" "''t6''" "''m6''" ?evs] h'
  have "length (filter is_high_risk (snd (run (events_on ''1000'' ?evs) ?D))) = 2"
    by simp
  ultimately show ?thesis using h by blast
qed

text \<open>
  Claim C1 as stated (exactly one \<open>high_risk\<close> notification in the life of a session)
  fails: a start request on the empty store followed by the four events of the scenario
  emits two.
\<close>

theorem high_risk_emitted_twice_in_one_session:
  "filter is_high_risk
     (snd (run (Start 1000 1000 ''900'' ''exam1'' # events_on ''1000'' scenario_events)
        MOCK_DB)) =
     [HighRisk ''1000'' ''High risk marked: Too many warnings.'',
      HighRisk ''1000'' ''High risk marked: Too many warnings.'']"
proof -
  note run = four_events_run(5) [OF find_session_store_fresh fresh_session_fields
      session_logs_store_fresh]
  show ?thesis
    unfolding scenario_from_start unfolding scenario_events_def unfolding run
    by simp
qed

text \<open>
  Claim C2. One event on a known session sets its \<open>riskScore\<close> to the minimum of 100
  and the old score plus the impact, so the score is at most 100 and a score of 100 stays
  100. A row of events on a session whose score is 0 leaves the minimum of 100 and the sum of
  their impacts. After any list of requests on the empty store, the score of the session that
  an id reaches is the minimum of 100 and the sum of the impacts logged for that id.
\<close>

theorem riskScore_is_clamped_sum_of_impacts:
  "(find_session DB sid = Some s \<longrightarrow>
      (\<exists>s'. find_session (fst (snd (post_event now sid et ts md DB))) sid = Some s' \<and>
            riskScore s' = min 100 (riskScore s + calculateRisk et) \<and>
            riskScore s' \<le> 100 \<and>
            (riskScore s = 100 \<longrightarrow> riskScore s' = 100))) \<and>
   (find_session DB sid = Some s \<and> riskScore s = 0 \<longrightarrow>
      (\<exists>s'. find_session (fst (run (events_on sid evs) DB)) sid = Some s' \<and>
            riskScore s' = min 100 (sum_list (impacts evs)))) \<and>
   (find_session (fst (run cs MOCK_DB)) sid = Some s \<longrightarrow>
      riskScore s =
        min 100 (sum_list (map impact (session_logs (fst (run cs MOCK_DB)) sid))))"
proof (intro conjI impI)
  assume "find_session DB sid = Some s"
  from post_event_same_session [OF this, of now et ts md]
  show "\<exists>s'. find_session (fst (snd (post_event now sid et ts md DB))) sid = Some s' \<and>
            riskScore s' = min 100 (riskScore s + calculateRisk et) \<and>
            riskScore s' \<le> 100 \<and>
            (riskScore s = 100 \<longrightarrow> riskScore s' = 100)"
    by simp
next
  assume a: "find_session DB sid = Some s \<and> riskScore s = 0"
  then have "find_session DB sid = Some s" by simp
  from run_events_on [OF this, of evs] a
  show "\<exists>s'. find_session (fst (run (events_on sid evs) DB)) sid = Some s' \<and>
            riskScore s' = min 100 (sum_list (impacts evs))"
    by (auto simp add: impacts_def)
next
  assume "find_session (fst (run cs MOCK_DB)) sid = Some s"
  with run_log_consistent [of cs sid]
  show "riskScore s =
        min 100 (sum_list (map impact (session_logs (fst (run cs MOCK_DB)) sid)))"
    by (simp add: log_consistent_def)
qed

theorem riskScore_is_clamped_sum_of_impacts_witness:
  "find_session store_fresh ''1000'' = Some fresh_session \<and> riskScore fresh_session = 0 \<and>
   find_session
     (fst (run [Start 1000 1000 ''900'' ''exam1'',
                Event 1001 ''1000'' ''multiple_faces'' ''t'' ''m''] MOCK_DB)) ''1000'' =
     Some (fresh_session\<lparr>riskScore := 35, warnings := 1\<rparr>) \<and>
   min 100 (sum_list (map impact (session_logs
     (fst (run [Start 1000 1000 ''900'' ''exam1'',
                Event 1001 ''1000'' ''multiple_faces'' ''t'' ''m''] MOCK_DB)) ''1000''))) = 35 \<and>
   (\<exists>s'. find_session
           (fst (snd (post_event 1001 ''1000'' ''multiple_faces'' ''t'' ''m'' store_fresh)))
           ''1000'' = Some s' \<and> riskScore s' = 35) \<and>
   (\<exists>s'. find_session
           (fst (run (events_on ''1000''
              [(1001, ''multiple_faces'', ''t'', ''m''), (1002, ''multiple_faces'', ''t'', ''m''),
               (1003, ''multiple_faces'', ''t'', ''m'')]) store_fresh))
           ''1000'' = Some s' \<and> riskScore s' = 100)"
proof -
  let ?evs = "[(1001::nat, ''multiple_faces'', ''t'', ''m''),
               (1002, ''multiple_faces'', ''t'', ''m''), (1003, ''multiple_faces'', ''t'', ''m'')]"
  have h: "find_session store_fresh ''1000'' = Some fresh_session"
    by (rule find_session_store_fresh)
  have z: "riskScore fresh_session = 0" by (simp add: fresh_session_def)
  let ?cs = "[Start 1000 1000 ''900'' ''exam1'',
              Event 1001 ''1000'' ''multiple_faces'' ''t'' ''m'']"
  have r: "find_session (fst (run ?cs MOCK_DB)) ''1000'' =
     Some (fresh_session\<lparr>riskScore := 35, warnings := 1\<rparr>)"
    by (rule run_start_event)
  have c: "calculateRisk ''multiple_faces'' = 35" by (simp add: calculateRisk_def)
  have i: "sum_list (impacts ?evs) = 105" by (simp add: impacts_def c)
  note inst = riskScore_is_clamped_sum_of_impacts
    [of store_fresh "''1000''" fresh_session 1001 "''multiple_faces''" "''t''" "''m''" ?evs]
  from riskScore_is_clamped_sum_of_impacts
    [of "fst (run ?cs MOCK_DB)" "''1000''" "fresh_session\<lparr>riskScore := 35, warnings := 1\<rparr>"
        1002 "''tab_switch''" "''t''" "''m''" "[]" ?cs] r
  have l: "min 100 (sum_list (map impact (session_logs (fst (run ?cs MOCK_DB)) ''1000''))) = 35"
    by simp
  from inst h have "\<exists>s'. find_session
           (fst (snd (post_event 1001 ''1000'' ''multiple_faces'' ''t'' ''m'' store_fresh)))
           ''1000'' = Some s' \<and> riskScore s' = 35"
    by (auto simp add: c z)
  moreover from inst h z have "\<exists>s'. find_session
           (fst (run (events_on ''1000'' ?evs) store_fresh)) ''1000'' = Some s' \<and>
           riskScore s' = 100"
    by (auto simp add: i)
  ultimately show ?thesis using h z r l by blast
qed

text \<open>
  Claim C3. One event on a known session adds 1 to \<open>warnings\<close> and emits one
  \<open>warning\<close> notification when its impact is positive, and leaves \<open>warnings\<close>
  unchanged and emits no \<open>warning\<close> notification when its impact is 0. A row of events on
  a session whose counter is 0 leaves the number of events with a positive impact, and emits
  as many \<open>warning\<close> notifications. After any list of requests on the empty store, the
  counter of the session that an id reaches is the number of log entries of that id with a
  positive impact.
\<close>

theorem warnings_count_events_with_impact:
  "(find_session DB sid = Some s \<longrightarrow>
      (\<exists>s'. find_session (fst (snd (post_event now sid et ts md DB))) sid = Some s' \<and>
            warnings s' = (if 0 < calculateRisk et then warnings s + 1 else warnings s) \<and>
            length (filter is_warning (snd (snd (post_event now sid et ts md DB)))) =
              (if 0 < calculateRisk et then 1 else 0))) \<and>
   (find_session DB sid = Some s \<and> warnings s = 0 \<longrightarrow>
      (\<exists>s'. find_session (fst (run (events_on sid evs) DB)) sid = Some s' \<and>
            warnings s' = length (filter (\<lambda>i. 0 < i) (impacts evs)) \<and>
            length (filter is_warning (snd (run (events_on sid evs) DB))) =
              length (filter (\<lambda>i. 0 < i) (impacts evs)))) \<and>
   (find_session (fst (run cs MOCK_DB)) sid = Some s \<longrightarrow>
      warnings s =
        length (filter (\<lambda>l. 0 < impact l) (session_logs (fst (run cs MOCK_DB)) sid)))"
proof (intro conjI impI)
  assume a: "find_session DB sid = Some s"
  from post_event_same_session [OF a, of now et ts md] post_event_emitted [OF a, of now et ts md]
  show "\<exists>s'. find_session (fst (snd (post_event now sid et ts md DB))) sid = Some s' \<and>
            warnings s' = (if 0 < calculateRisk et then warnings s + 1 else warnings s) \<and>
            length (filter is_warning (snd (snd (post_event now sid et ts md DB)))) =
              (if 0 < calculateRisk et then 1 else 0)"
    by simp
next
  assume a: "find_session DB sid = Some s \<and> warnings s = 0"
  then have "find_session DB sid = Some s" by simp
  from run_events_on [OF this, of evs] a
  show "\<exists>s'. find_session (fst (run (events_on sid evs) DB)) sid = Some s' \<and>
            warnings s' = length (filter (\<lambda>i. 0 < i) (impacts evs)) \<and>
            length (filter is_warning (snd (run (events_on sid evs) DB))) =
              length (filter (\<lambda>i. 0 < i) (impacts evs))"
    by auto
next
  assume "find_session (fst (run cs MOCK_DB)) sid = Some s"
  with run_log_consistent [of cs sid]
  show "warnings s =
        length (filter (\<lambda>l. 0 < impact l) (session_logs (fst (run cs MOCK_DB)) sid))"
    by (simp add: log_consistent_def)
qed

theorem warnings_count_events_with_impact_witness:
  "find_session store_fresh ''1000'' = Some fresh_session \<and> warnings fresh_session = 0 \<and>
   find_session (fst (run [Start 1000 1000 ''900'' ''exam1''] MOCK_DB)) ''1000'' =
     Some fresh_session \<and>
   (\<exists>s'. find_session
           (fst (snd (post_event 1001 ''1000'' ''phone_detected'' ''t'' ''m'' store_fresh)))
           ''1000'' = Some s' \<and> warnings s' = 0) \<and>
   filter is_warning
     (snd (snd (post_event 1001 ''1000'' ''phone_detected'' ''t'' ''m'' store_fresh))) = [] \<and>
   (\<exists>s'. find_session
           (fst (run (events_on ''1000''
              [(1001, ''multiple_faces'', ''t'', ''m''), (1002, ''phone_detected'', ''t'', ''m''),
               (1003, ''multiple_faces'', ''t'', ''m'')]) store_fresh))
           ''1000'' = Some s' \<and> warnings s' = 2)"
proof -
  let ?evs = "[(1001::nat, ''multiple_faces'', ''t'', ''m''),
               (1002, ''phone_detected'', ''t'', ''m''), (1003, ''multiple_faces'', ''t'', ''m'')]"
  have h: "find_session store_fresh ''1000'' = Some fresh_session"
    by (rule find_session_store_fresh)
  have z: "warnings fresh_session = 0" by (simp add: fresh_session_def)
  have r: "find_session (fst (run [Start 1000 1000 ''900'' ''exam1''] MOCK_DB)) ''1000'' =
     Some fresh_session"
    by (simp only: run_start_fresh h)
  have i: "impacts ?evs = [35, 0, 35]"
    by (simp add: impacts_def calculateRisk_multiple_faces calculateRisk_other)
  note inst = warnings_count_events_with_impact
    [of store_fresh "''1000''" fresh_session 1001 "''phone_detected''" "''t''" "''m''" ?evs
       "[Start 1000 1000 ''900'' ''exam1'']"]
  from inst h have "\<exists>s'. find_session
           (fst (snd (post_event 1001 ''1000'' ''phone_detected'' ''t'' ''m'' store_fresh)))
           ''1000'' = Some s' \<and> warnings s' = 0"
    by (auto simp add: calculateRisk_other z)
  moreover from inst h have "filter is_warning
     (snd (snd (post_event 1001 ''1000'' ''phone_detected'' ''t'' ''m'' store_fresh))) = []"
    by (auto simp add: calculateRisk_other)
  moreover from inst h z have "\<exists>s'. find_session
           (fst (run (events_on ''1000'' ?evs) store_fresh)) ''1000'' = Some s' \<and>
           warnings s' = 2"
    by (auto simp add: i)
  ultimately show ?thesis using h z r by blast
qed

text \<open>
  Claim C4. A session starts with status \<open>ongoing\<close>. One event on a known session
  leaves the status \<open>high_risk\<close> when the warnings counter after the event is at least 3,
  and as it was otherwise; so the event that brings the counter to 3 sets \<open>high_risk\<close>,
  and no event sets \<open>ongoing\<close>. After a row of events on a fresh session the status is
  \<open>high_risk\<close> exactly when at least three of them had a positive impact. In every store
  that a list of requests on the empty store leads to, each session has status
  \<open>high_risk\<close> exactly when its warnings counter is at least 3. Any further request keeps
  every session at its place in the store, with the same id, a \<open>riskScore\<close> and a
  \<open>warnings\<close> counter that are not smaller than before, and status \<open>high_risk\<close> if it
  was \<open>high_risk\<close> before.
\<close>

theorem status_rises_once_and_counters_never_fall:
  "status (fst (start_exam now started uid eid DB)) = ongoing \<and>
   (find_session DB sid = Some s \<longrightarrow>
      (\<exists>s'. find_session (fst (snd (post_event now sid et ts md DB))) sid = Some s' \<and>
            riskScore s' = min 100 (riskScore s + calculateRisk et) \<and>
            warnings s' = warnings s + (if 0 < calculateRisk et then 1 else 0) \<and>
            status s' = (if 3 \<le> warnings s' then high_risk else status s))) \<and>
   (find_session DB sid = Some s \<and> warnings s = 0 \<and> status s = ongoing \<longrightarrow>
      (\<exists>s'. find_session (fst (run (events_on sid evs) DB)) sid = Some s' \<and>
            warnings s' = length (filter (\<lambda>i. 0 < i) (impacts evs)) \<and>
            (status s' = high_risk) = (3 \<le> length (filter (\<lambda>i. 0 < i) (impacts evs))))) \<and>
   (\<forall>s\<in>set (examSessions (fst (run cs MOCK_DB))).
      (status s = high_risk) = (3 \<le> warnings s)) \<and>
   (i < length (examSessions (fst (run cs MOCK_DB))) \<longrightarrow>
      i < length (examSessions (fst (step c (fst (run cs MOCK_DB))))) \<and>
      session_id (examSessions (fst (step c (fst (run cs MOCK_DB)))) ! i) =
        session_id (examSessions (fst (run cs MOCK_DB)) ! i) \<and>
      riskScore (examSessions (fst (run cs MOCK_DB)) ! i)
        \<le> riskScore (examSessions (fst (step c (fst (run cs MOCK_DB)))) ! i) \<and>
      warnings (examSessions (fst (run cs MOCK_DB)) ! i)
        \<le> warnings (examSessions (fst (step c (fst (run cs MOCK_DB)))) ! i) \<and>
      (status (examSessions (fst (run cs MOCK_DB)) ! i) = high_risk \<longrightarrow>
         status (examSessions (fst (step c (fst (run cs MOCK_DB)))) ! i) = high_risk))"
proof (intro conjI impI)
  show "status (fst (start_exam now started uid eid DB)) = ongoing"
    by (simp add: start_exam_def Let_def)
next
  assume a: "find_session DB sid = Some s"
  from post_event_same_session [OF a, of now et ts md]
  show "\<exists>s'. find_session (fst (snd (post_event now sid et ts md DB))) sid = Some s' \<and>
            riskScore s' = min 100 (riskScore s + calculateRisk et) \<and>
            warnings s' = warnings s + (if 0 < calculateRisk et then 1 else 0) \<and>
            status s' = (if 3 \<le> warnings s' then high_risk else status s)"
    by simp
next
  assume a: "find_session DB sid = Some s \<and> warnings s = 0 \<and> status s = ongoing"
  then have "find_session DB sid = Some s" by simp
  from run_events_on_status [OF this, of evs] obtain s' where
    s': "find_session (fst (run (events_on sid evs) DB)) sid = Some s'"
    and warn: "warnings s' = warnings s + length (filter (\<lambda>i. 0 < i) (impacts evs))"
    and stat: "status s' = (if evs \<noteq> [] \<and> 3 \<le> warnings s' then high_risk else status s)"
    by blast
  from warn a have w: "warnings s' = length (filter (\<lambda>i. 0 < i) (impacts evs))" by simp
  have "(status s' = high_risk) = (3 \<le> length (filter (\<lambda>i. 0 < i) (impacts evs)))"
  proof (cases "evs = []")
    case True
    with stat a show ?thesis by (simp add: impacts_Nil)
  next
    case False
    with stat a w show ?thesis by simp
  qed
  with s' w
  show "\<exists>s'. find_session (fst (run (events_on sid evs) DB)) sid = Some s' \<and>
            warnings s' = length (filter (\<lambda>i. 0 < i) (impacts evs)) \<and>
            (status s' = high_risk) = (3 \<le> length (filter (\<lambda>i. 0 < i) (impacts evs)))"
    by blast
next
  show "\<forall>s\<in>set (examSessions (fst (run cs MOCK_DB))).
      (status s = high_risk) = (3 \<le> warnings s)"
    using run_sessions_ok [of cs] by (simp add: session_ok_def)
next
  assume i: "i < length (examSessions (fst (run cs MOCK_DB)))"
  then have "examSessions (fst (run cs MOCK_DB)) ! i \<in> set (examSessions (fst (run cs MOCK_DB)))"
    by (rule nth_mem)
  with run_sessions_ok [of cs]
  have "riskScore (examSessions (fst (run cs MOCK_DB)) ! i) \<le> 100"
    by (simp add: session_ok_def)
  from step_positionwise [OF i this, of c]
  show "i < length (examSessions (fst (step c (fst (run cs MOCK_DB)))))"
    and "session_id (examSessions (fst (step c (fst (run cs MOCK_DB)))) ! i) =
        session_id (examSessions (fst (run cs MOCK_DB)) ! i)"
    and "riskScore (examSessions (fst (run cs MOCK_DB)) ! i)
        \<le> riskScore (examSessions (fst (step c (fst (run cs MOCK_DB)))) ! i)"
    and "warnings (examSessions (fst (run cs MOCK_DB)) ! i)
        \<le> warnings (examSessions (fst (step c (fst (run cs MOCK_DB)))) ! i)"
    and "status (examSessions (fst (run cs MOCK_DB)) ! i) = high_risk \<Longrightarrow>
         status (examSessions (fst (step c (fst (run cs MOCK_DB)))) ! i) = high_risk"
    by simp_all
qed

theorem status_rises_once_and_counters_never_fall_witness:
  "find_session store_one ''1000'' =
     Some \<lparr>session_id = ''1000'', userId = ''900'', examId = ''exam1'',
           startTime = 1000, riskScore = 25, warnings = 2, status = ongoing\<rparr> \<and>
   (\<exists>s'. find_session
           (fst (snd (post_event 1003 ''1000'' ''multiple_faces'' ''t3'' ''m3'' store_one)))
           ''1000'' = Some s' \<and>
         riskScore s' = 60 \<and> warnings s' = 3 \<and> status s' = high_risk) \<and>
   (\<exists>s'. find_session
           (fst (snd (post_event 1004 ''1000'' ''phone_detected'' ''t4'' ''m4''
              (fst (snd (post_event 1003 ''1000'' ''multiple_faces'' ''t3'' ''m3'' store_one))))))
           ''1000'' = Some s' \<and>
         riskScore s' = 60 \<and> warnings s' = 3 \<and> status s' = high_risk) \<and>
   find_session store_fresh ''1000'' = Some fresh_session \<and>
   warnings fresh_session = 0 \<and> status fresh_session = ongoing \<and>
   (\<exists>s'. find_session (fst (run (events_on ''1000'' (take 2 scenario_events)) store_fresh))
           ''1000'' = Some s' \<and> warnings s' = 2 \<and> status s' \<noteq> high_risk) \<and>
   (\<exists>s'. find_session (fst (run (events_on ''1000'' (take 3 scenario_events)) store_fresh))
           ''1000'' = Some s' \<and> warnings s' = 3 \<and> status s' = high_risk) \<and>
   (\<exists>s'. find_session (fst (run (events_on ''1000'' scenario_events) store_fresh))
           ''1000'' = Some s' \<and> warnings s' = 4 \<and> status s' = high_risk) \<and>
   examSessions
     (fst (run (Start 1000 1000 ''900'' ''exam1'' # events_on ''1000'' scenario_events) MOCK_DB)) =
     [fresh_session\<lparr>riskScore := 65, warnings := 4, status := high_risk\<rparr>] \<and>
   status (examSessions
     (fst (step (Event 1005 ''1000'' ''phone_detected'' ''t5'' ''m5'')
        (fst (run (Start 1000 1000 ''900'' ''exam1'' # events_on ''1000'' scenario_events)
           MOCK_DB)))) ! 0) = high_risk"
proof -
  let ?s = "\<lparr>session_id = ''1000'', userId = ''900'', examId = ''exam1'',
           startTime = 1000, riskScore = 25, warnings = 2, status = ongoing\<rparr>"
  let ?s' = "\<lparr>session_id = ''1000'', userId = ''900'', examId = ''exam1'',
           startTime = 1000, riskScore = 60, warnings = 3, status = high_risk\<rparr>"
  let ?D = "fst (snd (post_event 1003 ''1000'' ''multiple_faces'' ''t3'' ''m3'' store_one))"
  let ?cs = "Start 1000 1000 ''900'' ''exam1'' # events_on ''1000'' scenario_events"
  let ?c = "Event 1005 ''1000'' ''phone_detected'' ''t5'' ''m5''"
  have h: "find_session store_one ''1000'' = Some ?s" by (rule find_session_store_one)
  have h': "find_session ?D ''1000'' = Some ?s'" by (rule store_one_flagged)
  have f: "find_session store_fresh ''1000'' = Some fresh_session"
    by (rule find_session_store_fresh)
  have z: "warnings fresh_session = 0" "status fresh_session = ongoing"
    by (rule fresh_session_fields)+
  have i2: "impacts (take 2 scenario_events) = [15, 10]"
    and i3: "impacts (take 3 scenario_events) = [15, 10, 35]"
    by (simp_all add: impacts_def scenario_events_def calculateRisk_scenario
        calculateRisk_multiple_faces)
  have e: "examSessions (fst (run ?cs MOCK_DB)) =
      [fresh_session\<lparr>riskScore := 65, warnings := 4, status := high_risk\<rparr>]"
    by (rule scenario_store_sessions)
  have l: "0 < length (examSessions (fst (run ?cs MOCK_DB)))"
    unfolding e by simp
  have rise: "\<exists>s'. find_session ?D ''1000'' = Some s' \<and>
         riskScore s' = 60 \<and> warnings s' = 3 \<and> status s' = high_risk"
    using status_rises_once_and_counters_never_fall
      [of 1003 1000 "''900''" "''exam1''" store_one "''1000''" ?s "''multiple_faces''"
          "''t3''" "''m3''" "[]" "[]" 0 ?c] h
    by (auto simp add: calculateRisk_multiple_faces)
  have stay: "\<exists>s'. find_session
           (fst (snd (post_event 1004 ''1000'' ''phone_detected'' ''t4'' ''m4'' ?D)))
           ''1000'' = Some s' \<and>
         riskScore s' = 60 \<and> warnings s' = 3 \<and> status s' = high_risk"
    using status_rises_once_and_counters_never_fall
      [of 1004 1000 "''900''" "''exam1''" ?D "''1000''" ?s' "''phone_detected''"
          "''t4''" "''m4''" "[]" "[]" 0 ?c] h'
    by (auto simp add: calculateRisk_other)
  have row2: "\<exists>s'. find_session
           (fst (run (events_on ''1000'' (take 2 scenario_events)) store_fresh))
           ''1000'' = Some s' \<and> warnings s' = 2 \<and> status s' \<noteq> high_risk"
    using status_rises_once_and_counters_never_fall
      [of 1003 1000 "''900''" "''exam1''" store_fresh "''1000''" fresh_session
          "''multiple_faces''" "''t3''" "''m3''" "take 2 scenario_events" "[]" 0 ?c] f z
    by (auto simp add: i2)
  have row3: "\<exists>s'. find_session
           (fst (run (events_on ''1000'' (take 3 scenario_events)) store_fresh))
           ''1000'' = Some s' \<and> warnings s' = 3 \<and> status s' = high_risk"
    using status_rises_once_and_counters_never_fall
      [of 1003 1000 "''900''" "''exam1''" store_fresh "''1000''" fresh_session
          "''multiple_faces''" "''t3''" "''m3''" "take 3 scenario_events" "[]" 0 ?c] f z
    by (auto simp add: i3)
  have row4: "\<exists>s'. find_session
           (fst (run (events_on ''1000'' scenario_events) store_fresh))
           ''1000'' = Some s' \<and> warnings s' = 4 \<and> status s' = high_risk"
    using status_rises_once_and_counters_never_fall
      [of 1003 1000 "''900''" "''exam1''" store_fresh "''1000''" fresh_session
          "''multiple_faces''" "''t3''" "''m3''" scenario_events "[]" 0 ?c] f z
    by (auto simp add: impacts_scenario)
  note reach = status_rises_once_and_counters_never_fall
      [of 1003 1000 "''900''" "''exam1''" store_fresh "''1000''" fresh_session
          "''multiple_faces''" "''t3''" "''m3''" "[]" ?cs 0 ?c]
  have before: "status (examSessions (fst (run ?cs MOCK_DB)) ! 0) = high_risk"
    unfolding e by simp
  from reach l before
  have after: "status (examSessions (fst (step ?c (fst (run ?cs MOCK_DB)))) ! 0) = high_risk"
    by blast
  from h rise stay f z row2 row3 row4 e after show ?thesis by blast
qed

text \<open>
  Claim C5. An event whose session id matches no session in the store is answered with
  \<open>SessionNotFound\<close>; the store that the handler leaves is the store it was given
  (users, sessions and log alike), and nothing is emitted.
\<close>
theorem unknown_session_rejected_without_effect:
  assumes "sid \<notin> session_id ` set (examSessions DB)"
  shows "post_event now sid et ts md DB = (Inl SessionNotFound, DB, [])"
  using assms by (simp add: not_in_ids_find_session post_event_unknown)

theorem unknown_session_rejected_without_effect_witness:
  "''2000'' \<notin> session_id ` set (examSessions store_one) \<and>
   post_event 1003 ''2000'' ''multiple_faces'' ''t3'' ''m3'' store_one =
     (Inl SessionNotFound, store_one, [])"
proof -
  have h: "''2000'' \<notin> session_id ` set (examSessions store_one)"
    by (simp add: store_one_def)
  from unknown_session_rejected_without_effect [OF h] h show ?thesis by simp
qed

text \<open>
  Claim C6. \<open>calculateRisk\<close> and \<open>getWarningMessage\<close> are the fixed table: the six
  risks, 0 for every other label, the five custom messages, and the default message for
  \<open>fast_answering\<close> and every other label. Both are functions of the label alone and
  return a value for every string.
\<close>
theorem risk_table_exact:
  "calculateRisk ''tab_switch'' = 15 \<and>
   calculateRisk ''no_face'' = 20 \<and>
   calculateRisk ''multiple_faces'' = 35 \<and>
   calculateRisk ''looking_away'' = 10 \<and>
   calculateRisk ''voice_detected'' = 25 \<and>
   calculateRisk ''fast_answering'' = 5 \<and>
   (et \<notin> {''tab_switch'', ''no_face'', ''multiple_faces'', ''looking_away'',
            ''voice_detected'', ''fast_answering''} \<longrightarrow> calculateRisk et = 0) \<and>
   getWarningMessage ''tab_switch'' = ''Warning: Please stay on the exam tab.'' \<and>
   getWarningMessage ''no_face'' = ''Warning: No face detected in webcam.'' \<and>
   getWarningMessage ''multiple_faces'' = ''Warning: Multiple faces detected!'' \<and>
   getWarningMessage ''looking_away'' = ''Warning: Please stay focused on the screen.'' \<and>
   getWarningMessage ''voice_detected'' = ''Warning: Voice detected in the background.'' \<and>
   getWarningMessage ''fast_answering'' = ''Warning: Suspicious activity detected.'' \<and>
   (et \<notin> {''tab_switch'', ''no_face'', ''multiple_faces'', ''looking_away'',
            ''voice_detected''} \<longrightarrow>
      getWarningMessage et = ''Warning: Suspicious activity detected.'')"
  by (simp add: calculateRisk_def getWarningMessage_def)

theorem risk_table_exact_witness:
  "''phone_detected'' \<notin> {''tab_switch'', ''no_face'', ''multiple_faces'', ''looking_away'',
      ''voice_detected'', ''fast_answering''} \<and>
   calculateRisk ''phone_detected'' = 0 \<and>
   getWarningMessage ''phone_detected'' = ''Warning: Suspicious activity detected.''"
  using risk_table_exact [of "''phone_detected''"] by simp

text \<open>
  Claim C7. For an id that some session in the store has, the report holds the session
  that the id reaches, all log entries of that id in the order of the log, and that
  session's warnings and risk score; for an id that no session has it is
  \<open>SessionNotFound\<close>. In both cases the store is returned as it was.
\<close>
theorem report_joins_session_with_its_log:
  "(sid \<in> session_id ` set (examSessions DB) \<longrightarrow>
      (\<exists>r. get_report sid DB = (Inr r, DB) \<and>
           find_session DB sid = Some (report_session r) \<and>
           session_id (report_session r) = sid \<and>
           events r = filter (\<lambda>l. sessionId l = sid) (logs DB) \<and>
           totalWarnings r = warnings (report_session r) \<and>
           finalRiskScore r = riskScore (report_session r))) \<and>
   (sid \<notin> session_id ` set (examSessions DB) \<longrightarrow>
      get_report sid DB = (Inl SessionNotFound, DB))"
proof (intro conjI impI)
  assume "sid \<in> session_id ` set (examSessions DB)"
  then obtain s where s: "find_session DB sid = Some s" "session_id s = sid"
    using in_ids_find_session by blast
  then have "get_report sid DB =
      (Inr \<lparr>report_session = s, events = filter (\<lambda>l. sessionId l = sid) (logs DB),
            totalWarnings = warnings s, finalRiskScore = riskScore s\<rparr>, DB)"
    by (simp add: get_report_def find_session_def)
  with s show "\<exists>r. get_report sid DB = (Inr r, DB) \<and>
           find_session DB sid = Some (report_session r) \<and>
           session_id (report_session r) = sid \<and>
           events r = filter (\<lambda>l. sessionId l = sid) (logs DB) \<and>
           totalWarnings r = warnings (report_session r) \<and>
           finalRiskScore r = riskScore (report_session r)"
    by simp
next
  assume "sid \<notin> session_id ` set (examSessions DB)"
  then have "find_session DB sid = None" by (simp add: not_in_ids_find_session)
  then show "get_report sid DB = (Inl SessionNotFound, DB)"
    by (simp add: get_report_def find_session_def)
qed

theorem report_joins_session_with_its_log_witness:
  "''1000'' \<in> session_id ` set (examSessions store_one) \<and>
   ''2000'' \<notin> session_id ` set (examSessions store_one) \<and>
   (\<exists>r. get_report ''1000'' store_one = (Inr r, store_one) \<and>
        map log_id (events r) = [''1001'', ''1002''] \<and>
        totalWarnings r = 2 \<and> finalRiskScore r = 25) \<and>
   get_report ''2000'' store_one = (Inl SessionNotFound, store_one)"
proof -
  have h1: "''1000'' \<in> session_id ` set (examSessions store_one)"
    and h2: "''2000'' \<notin> session_id ` set (examSessions store_one)"
    by (simp_all add: store_one_def)
  from report_joins_session_with_its_log [of "''1000''" store_one] h1
  obtain r where r: "get_report ''1000'' store_one = (Inr r, store_one)"
    "find_session store_one ''1000'' = Some (report_session r)"
    "events r = filter (\<lambda>l. sessionId l = ''1000'') (logs store_one)"
    "totalWarnings r = warnings (report_session r)"
    "finalRiskScore r = riskScore (report_session r)"
    by blast
  from r(2) have "Some (report_session r) = find_session store_one ''1000''" by simp
  then have "warnings (report_session r) = 2" "riskScore (report_session r) = 25"
    by (simp_all add: find_session_def store_one_def)
  moreover from r(3) have "map log_id (events r) = [''1001'', ''1002'']"
    by (simp add: store_one_def)
  moreover from report_joins_session_with_its_log [of "''2000''" store_one] h2
  have "get_report ''2000'' store_one = (Inl SessionNotFound, store_one)" by blast
  ultimately show ?thesis using h1 h2 r(1,4,5) by auto
qed

text \<open>
  Claim C8. A second login with the same username returns the user and token of the first
  and leaves the store as the first left it. The first login appends the user it returns when
  no user has that username, and otherwise returns a user of the store and changes nothing.
  No list of requests on the empty store leaves two users with one username.
\<close>

theorem login_finds_or_creates_once:
  "fst (login now2 uname (snd (login now1 uname DB))) = fst (login now1 uname DB) \<and>
   snd (login now2 uname (snd (login now1 uname DB))) = snd (login now1 uname DB) \<and>
   username (fst (fst (login now1 uname DB))) = uname \<and>
   (uname \<notin> username ` set (users DB) \<longrightarrow>
      users (snd (login now1 uname DB)) = users DB @ [fst (fst (login now1 uname DB))]) \<and>
   (uname \<in> username ` set (users DB) \<longrightarrow>
      snd (login now1 uname DB) = DB \<and> fst (fst (login now1 uname DB)) \<in> set (users DB)) \<and>
   distinct (map username (users (fst (run cs MOCK_DB))))"
proof -
  have run: "distinct (map username (users (fst (run cs MOCK_DB))))"
  proof (rule run_invariant)
    show "distinct (map username (users MOCK_DB))" by (simp add: MOCK_DB_def)
  qed (rule step_users_distinct)
  show ?thesis
  proof (cases "find (\<lambda>u. username u = uname) (users DB)")
    case None
    then have "uname \<notin> username ` set (users DB)"
      by (auto simp add: find_None_not_in)
    with None run show ?thesis
      by (simp add: login_def Let_def find_append_single)
  next
    case (Some u)
    then have "username u = uname \<and> u \<in> set (users DB)"
      by (rule find_Some_holds)
    with Some run show ?thesis
      by (auto simp add: login_def)
  qed
qed

theorem login_finds_or_creates_once_witness:
  "''alice'' \<in> username ` set (users store_one) \<and>
   ''bob'' \<notin> username ` set (users store_one) \<and>
   user_id (fst (fst (login 5000 ''alice'' store_one))) = ''900'' \<and>
   snd (login 5000 ''alice'' store_one) = store_one \<and>
   users (snd (login 5000 ''bob'' store_one)) =
     users store_one @ [fst (fst (login 5000 ''bob'' store_one))] \<and>
   fst (login 6000 ''bob'' (snd (login 5000 ''bob'' store_one))) =
     fst (login 5000 ''bob'' store_one)"
proof -
  have h1: "''alice'' \<in> username ` set (users store_one)"
    and h2: "''bob'' \<notin> username ` set (users store_one)"
    by (simp_all add: store_one_def)
  note alice = login_finds_or_creates_once [of 6000 "''alice''" 5000 store_one "[]"]
  note bob = login_finds_or_creates_once [of 6000 "''bob''" 5000 store_one "[]"]
  from alice h1 have same: "snd (login 5000 ''alice'' store_one) = store_one" by blast
  from alice h1 have "fst (fst (login 5000 ''alice'' store_one)) \<in> set (users store_one)"
    "username (fst (fst (login 5000 ''alice'' store_one))) = ''alice''"
    by blast+
  then have id: "user_id (fst (fst (login 5000 ''alice'' store_one))) = ''900''"
    by (auto simp add: store_one_def)
  from bob h2 have "users (snd (login 5000 ''bob'' store_one)) =
     users store_one @ [fst (fst (login 5000 ''bob'' store_one))]"
    "fst (login 6000 ''bob'' (snd (login 5000 ''bob'' store_one))) =
     fst (login 5000 ''bob'' store_one)"
    by blast+
  with h1 h2 same id show ?thesis by blast
qed

text \<open>
  Claim C9, as the code has it. On a fresh session the events \<open>tab_switch\<close>,
  \<open>looking_away\<close>, \<open>multiple_faces\<close>, \<open>fast_answering\<close> lead to risk 15 and 1
  warning, risk 25 and 2 warnings, risk 60 and 3 warnings with status \<open>high_risk\<close>, and
  risk 65 and 4 warnings: \<open>fast_answering\<close> has impact 5, so it is a fourth warning, and
  since the counter is then at least 3 it emits \<open>high_risk\<close> once more. The report has
  \<open>finalRiskScore\<close> 65, \<open>totalWarnings\<close> 4, status \<open>high_risk\<close> and the four log
  entries.
\<close>

theorem scenario_four_events:
  assumes "find_session DB sid = Some s"
    and "riskScore s = 0" and "warnings s = 0" and "status s = ongoing"
    and "session_logs DB sid = []"
  shows
   "find_session (fst (run (events_on sid (take 1 scenario_events)) DB)) sid =
      Some (s\<lparr>riskScore := 15, warnings := 1\<rparr>) \<and>
    find_session (fst (run (events_on sid (take 2 scenario_events)) DB)) sid =
      Some (s\<lparr>riskScore := 25, warnings := 2\<rparr>) \<and>
    find_session (fst (run (events_on sid (take 3 scenario_events)) DB)) sid =
      Some (s\<lparr>riskScore := 60, warnings := 3, status := high_risk\<rparr>) \<and>
    find_session (fst (run (events_on sid scenario_events) DB)) sid =
      Some (s\<lparr>riskScore := 65, warnings := 4, status := high_risk\<rparr>) \<and>
    snd (run (events_on sid scenario_events) DB) =
      [Warning sid ''tab_switch'' ''Warning: Please stay on the exam tab.'' 1 15,
       Warning sid ''looking_away'' ''Warning: Please stay focused on the screen.'' 2 25,
       Warning sid ''multiple_faces'' ''Warning: Multiple faces detected!'' 3 60,
       HighRisk sid ''High risk marked: Too many warnings.'',
       Warning sid ''fast_answering'' ''Warning: Suspicious activity detected.'' 4 65,
       HighRisk sid ''High risk marked: Too many warnings.''] \<and>
    fst (get_report sid (fst (run (events_on sid scenario_events) DB))) =
      Inr \<lparr>report_session = s\<lparr>riskScore := 65, warnings := 4, status := high_risk\<rparr>,
            events =
              [\<lparr>log_id = toString 1001, sessionId = sid, eventType = ''tab_switch'',
                 timestamp = ''t1'', metadata = ''m1'', impact = 15\<rparr>,
               \<lparr>log_id = toString 1002, sessionId = sid, eventType = ''looking_away'',
                 timestamp = ''t2'', metadata = ''m2'', impact = 10\<rparr>,
               \<lparr>log_id = toString 1003, sessionId = sid, eventType = ''multiple_faces'',
                 timestamp = ''t3'', metadata = ''m3'', impact = 35\<rparr>,
               \<lparr>log_id = toString 1004, sessionId = sid, eventType = ''fast_answering'',
                 timestamp = ''t4'', metadata = ''m4'', impact = 5\<rparr>],
            totalWarnings = 4, finalRiskScore = 65\<rparr>"
proof -
  have t: "take 1 scenario_events = [(1001, ''tab_switch'', ''t1'', ''m1'')]"
    "take 2 scenario_events =
       [(1001, ''tab_switch'', ''t1'', ''m1''), (1002, ''looking_away'', ''t2'', ''m2'')]"
    "take 3 scenario_events =
       [(1001, ''tab_switch'', ''t1'', ''m1''), (1002, ''looking_away'', ''t2'', ''m2''),
        (1003, ''multiple_faces'', ''t3'', ''m3'')]"
    by (simp_all add: scenario_events_def)
  note run = four_events_run [OF assms]
  show ?thesis
    unfolding t unfolding scenario_events_def
    by (intro conjI) (rule run)+
qed

theorem scenario_four_events_witness:
  "find_session store_fresh ''1000'' = Some fresh_session \<and>
   riskScore fresh_session = 0 \<and> warnings fresh_session = 0 \<and>
   status fresh_session = ongoing \<and> session_logs store_fresh ''1000'' = [] \<and>
   find_session (fst (run (events_on ''1000'' scenario_events) store_fresh)) ''1000'' =
     Some (fresh_session\<lparr>riskScore := 65, warnings := 4, status := high_risk\<rparr>)"
  using scenario_four_events [OF find_session_store_fresh fresh_session_fields
      session_logs_store_fresh]
    find_session_store_fresh fresh_session_fields session_logs_store_fresh [of "''1000''"]
  by blast

text \<open>
  Claim C9 as stated (3 warnings after \<open>fast_answering\<close>, and no further
  \<open>high_risk\<close> notification) fails on the scenario run from the empty store: the session
  ends with 4 warnings, and the last two notifications are the warning for
  \<open>fast_answering\<close> and a second \<open>high_risk\<close>.
\<close>

theorem scenario_fast_answering_is_a_fourth_warning:
  "find_session
     (fst (run (Start 1000 1000 ''900'' ''exam1'' # events_on ''1000'' scenario_events) MOCK_DB))
     ''1000'' =
     Some (fresh_session\<lparr>riskScore := 65, warnings := 4, status := high_risk\<rparr>) \<and>
   snd (run (Start 1000 1000 ''900'' ''exam1'' # events_on ''1000'' scenario_events) MOCK_DB) =
     [Warning ''1000'' ''tab_switch'' ''Warning: Please stay on the exam tab.'' 1 15,
      Warning ''1000'' ''looking_away'' ''Warning: Please stay focused on the screen.'' 2 25,
      Warning ''1000'' ''multiple_faces'' ''Warning: Multiple faces detected!'' 3 60,
      HighRisk ''1000'' ''High risk marked: Too many warnings.'',
      Warning ''1000'' ''fast_answering'' ''Warning: Suspicious activity detected.'' 4 65,
      HighRisk ''1000'' ''High risk marked: Too many warnings.'']"
proof -
  note run = four_events_run [OF find_session_store_fresh fresh_session_fields
      session_logs_store_fresh]
  show ?thesis
    unfolding scenario_from_start unfolding scenario_events_def
    by (intro conjI) (rule run)+
qed

text \<open>
  Claim C10. The \<open>warning\<close> notification of an event with a positive impact on a known
  session carries the counters of the session as the handler leaves it: the warnings counter
  after the increment and the risk score after the clamp.
\<close>

theorem warning_carries_updated_counters:
  assumes "find_session DB sid = Some s" and "0 < calculateRisk et"
  shows "\<exists>entry s'.
     fst (post_event now sid et ts md DB) = Inr (entry, s') \<and>
     find_session (fst (snd (post_event now sid et ts md DB))) sid = Some s' \<and>
     warnings s' = warnings s + 1 \<and>
     riskScore s' = min 100 (riskScore s + calculateRisk et) \<and>
     filter is_warning (snd (snd (post_event now sid et ts md DB))) =
       [Warning sid et (getWarningMessage et) (warnings s') (riskScore s')]"
proof -
  from post_event_known [OF assms(1), of now et ts md] obtain s' entry where
    pe: "fst (post_event now sid et ts md DB) = Inr (entry, s')"
    and s': "s' = s\<lparr>riskScore := min 100 (riskScore s + calculateRisk et),
               warnings := warnings s + (if 0 < calculateRisk et then 1 else 0),
               status := (if 3 \<le> warnings s + (if 0 < calculateRisk et then 1 else 0)
                          then high_risk else status s)\<rparr>"
    by auto
  have "find_session (fst (snd (post_event now sid et ts md DB))) sid = Some s'"
    using post_event_same_session [OF assms(1), of now et ts md] s' by simp
  moreover have "warnings s' = warnings s + 1"
    "riskScore s' = min 100 (riskScore s + calculateRisk et)"
    using s' assms(2) by simp_all
  moreover have "filter is_warning (snd (snd (post_event now sid et ts md DB))) =
       [Warning sid et (getWarningMessage et) (warnings s') (riskScore s')]"
    using post_event_emitted [OF assms(1), of now et ts md] s' assms(2) by simp
  ultimately show ?thesis using pe by blast
qed

theorem warning_carries_updated_counters_witness:
  "find_session store_one ''1000'' =
     Some \<lparr>session_id = ''1000'', userId = ''900'', examId = ''exam1'',
           startTime = 1000, riskScore = 25, warnings = 2, status = ongoing\<rparr> \<and>
   0 < calculateRisk ''multiple_faces'' \<and>
   filter is_warning
     (snd (snd (post_event 1003 ''1000'' ''multiple_faces'' ''t3'' ''m3'' store_one))) =
     [Warning ''1000'' ''multiple_faces'' ''Warning: Multiple faces detected!'' 3 60]"
proof -
  have h: "find_session store_one ''1000'' =
     Some \<lparr>session_id = ''1000'', userId = ''900'', examId = ''exam1'',
           startTime = 1000, riskScore = 25, warnings = 2, status = ongoing\<rparr>"
    by (rule find_session_store_one)
  have c: "0 < calculateRisk ''multiple_faces''" by (simp add: calculateRisk_multiple_faces)
  have m: "getWarningMessage ''multiple_faces'' = ''Warning: Multiple faces detected!''"
    by (simp add: getWarningMessage_def)
  from warning_carries_updated_counters [OF h c, of 1003 "''t3''" "''m3''"]
  have "filter is_warning
     (snd (snd (post_event 1003 ''1000'' ''multiple_faces'' ''t3'' ''m3'' store_one))) =
     [Warning ''1000'' ''multiple_faces'' ''Warning: Multiple faces detected!'' 3 60]"
    by (auto simp add: calculateRisk_multiple_faces m)
  with h c show ?thesis by blast
qed

end
